theory Spec2Isabelle
  imports Complex_Main "HOL-Library.Log_Nat"
begin

section \<open>Python and pandas values\<close>

text \<open>
  The simulator is Python over pandas tables. Exceptions are values of \<open>py_error\<close>; a
  function that can raise returns \<open>py_error + 'a\<close>. A float is an IEEE double, given by
  the rational it stands for, with the two infinities and \<open>nan\<close> as constructors of their
  own (the sign of zero is not kept: nothing here tells \<open>-0.0\<close> from \<open>0.0\<close>). A pandas
  duration is an exact number of seconds, or \<open>NaT\<close>. The mean of a duration column and
  \<open>total_seconds\<close> are taken exactly. Console output (\<open>print\<close>) has no influence on
  data or control flow and is left out. Strings are byte strings; only the ASCII letters
  change under \<open>upper\<close>, only ASCII white space and digits are recognised by \<open>split\<close>
  and \<open>int\<close>.
\<close>

datatype py_error =
  ValueError | IndexError | KeyError | TypeError | AttributeError | EOFError | DataNotLoadedError |
  OverflowError

datatype timedelta = Timedelta rat | NaT

datatype pyfloat = Float rat | PInf | NInf | NaN

fun td_add :: "timedelta \<Rightarrow> timedelta \<Rightarrow> timedelta" where
  "td_add (Timedelta a) (Timedelta b) = Timedelta (a + b)"
| "td_add _ _ = NaT"

fun total_seconds :: "timedelta \<Rightarrow> pyfloat" where
  "total_seconds (Timedelta x) = Float x"
| "total_seconds NaT = NaN"

text \<open>\<open>Series.mean()\<close> of a duration column skips \<open>NaT\<close>; with no value left it is \<open>NaT\<close>.\<close>

fun td_values :: "timedelta list \<Rightarrow> rat list" where
  "td_values [] = []"
| "td_values (Timedelta x # ts) = x # td_values ts"
| "td_values (NaT # ts) = td_values ts"

definition td_mean :: "timedelta list \<Rightarrow> timedelta" where
  "td_mean ts =
     (let xs = td_values ts
      in if xs = [] then NaT else Timedelta (sum_list xs / of_nat (length xs)))"

subsection \<open>Double-precision arithmetic\<close>

text \<open>
  Every arithmetic operation on floats, and every decimal literal, gives the double
  nearest to the exact value, ties going to the even significand. \<open>binade x\<close> is the
  exponent \<open>e\<close> with \<open>2^e \<le> |x| < 2^(e+1)\<close>; the doubles of that binade are the multiples
  of \<open>2^(e-52)\<close>, and below \<open>2^(-1022)\<close> the multiples of \<open>2^(-1074)\<close>. A result that
  rounds to \<open>2^1024\<close> or beyond is an infinity.
\<close>

definition binade :: "rat \<Rightarrow> int" where
  "binade x =
     (let (p, q) = quotient_of \<bar>x\<bar>; e = bitlen p - bitlen q
      in if 2 powi e \<le> \<bar>x\<bar> then e else e - 1)"

definition round_half_even :: "rat \<Rightarrow> int" where
  "round_half_even m =
     (let n = \<lfloor>m\<rfloor>; r = m - of_int n
      in if r < 1 / 2 then n else if 1 / 2 < r then n + 1 else if even n then n else n + 1)"

definition round_to_double :: "rat \<Rightarrow> rat" where
  "round_to_double x =
     (if x = 0 then 0
      else let ulp = 2 powi (max (binade x) (- 1022) - 52)
           in of_int (round_half_even (x / ulp)) * ulp)"

definition double :: "rat \<Rightarrow> pyfloat" where
  "double x =
     (let r = round_to_double x
      in if 2 ^ 1024 \<le> r then PInf else if r \<le> - (2 ^ 1024) then NInf else Float r)"

fun fmul :: "pyfloat \<Rightarrow> pyfloat \<Rightarrow> pyfloat" where
  "fmul (Float a) (Float b) = double (a * b)"
| "fmul NaN _ = NaN"
| "fmul _ NaN = NaN"
| "fmul (Float a) PInf = (if a = 0 then NaN else if 0 < a then PInf else NInf)"
| "fmul (Float a) NInf = (if a = 0 then NaN else if 0 < a then NInf else PInf)"
| "fmul PInf (Float b) = (if b = 0 then NaN else if 0 < b then PInf else NInf)"
| "fmul NInf (Float b) = (if b = 0 then NaN else if 0 < b then NInf else PInf)"
| "fmul PInf PInf = PInf"
| "fmul NInf NInf = PInf"
| "fmul PInf NInf = NInf"
| "fmul NInf PInf = NInf"

fun fadd :: "pyfloat \<Rightarrow> pyfloat \<Rightarrow> pyfloat" where
  "fadd (Float a) (Float b) = double (a + b)"
| "fadd NaN _ = NaN"
| "fadd _ NaN = NaN"
| "fadd PInf NInf = NaN"
| "fadd NInf PInf = NaN"
| "fadd PInf _ = PInf"
| "fadd _ PInf = PInf"
| "fadd NInf _ = NInf"
| "fadd _ NInf = NInf"

text \<open>
  \<open>int(x)\<close> of a float cuts towards zero. \<open>pd.Timedelta(seconds=x)\<close> multiplies the
  seconds by \<open>1_000_000_000\<close> as a float, cuts the product to an integer number of
  nanoseconds (\<open>ValueError\<close> on \<open>nan\<close>, \<open>OverflowError\<close> on an infinity) and makes the
  duration of it; the count must fit 64 bits, and the least 64-bit value is \<open>NaT\<close>.
\<close>

definition float_to_int :: "rat \<Rightarrow> int" where
  "float_to_int t = (if 0 \<le> t then \<lfloor>t\<rfloor> else \<lceil>t\<rceil>)"

fun Timedelta_seconds :: "pyfloat \<Rightarrow> py_error + timedelta" where
  "Timedelta_seconds NaN = Inl ValueError"
| "Timedelta_seconds PInf = Inl OverflowError"
| "Timedelta_seconds NInf = Inl OverflowError"
| "Timedelta_seconds (Float x) =
     (case fmul (Float x) (Float 1000000000) of
        Float t \<Rightarrow>
          (let n = float_to_int t
           in if 2 ^ 63 \<le> n \<or> n < - (2 ^ 63) then Inl OverflowError
              else if n = - (2 ^ 63) then Inr NaT
              else Inr (Timedelta (of_int n / 1000000000)))
      | NaN \<Rightarrow> Inl ValueError
      | _ \<Rightarrow> Inl OverflowError)"

subsection \<open>Strings\<close>

definition py_upper_char :: "char \<Rightarrow> char" where
  "py_upper_char c =
     (case map_of (zip ''abcdefghijklmnopqrstuvwxyz'' ''ABCDEFGHIJKLMNOPQRSTUVWXYZ'') c of
        Some u \<Rightarrow> u
      | None \<Rightarrow> c)"

definition py_upper :: "string \<Rightarrow> string" where
  "py_upper s = map py_upper_char s"

text \<open>White space for \<open>str.split()\<close>: tab, LF, VT, FF, CR, the four separators FS to US, space.\<close>

definition is_space :: "char \<Rightarrow> bool" where
  "is_space c = (c \<in> set [CHR 0x09, CHR 0x0A, CHR 0x0B, CHR 0x0C, CHR 0x0D,
                            CHR 0x1C, CHR 0x1D, CHR 0x1E, CHR 0x1F, CHR 0x20])"

fun py_split_from :: "string \<Rightarrow> string \<Rightarrow> string list" where
  "py_split_from cur [] = (if cur = [] then [] else [cur])"
| "py_split_from cur (c # cs) =
     (if is_space c
      then (if cur = [] then py_split_from [] cs else cur # py_split_from [] cs)
      else py_split_from (cur @ [c]) cs)"

definition py_split :: "string \<Rightarrow> string list" where
  "py_split s = py_split_from [] s"

text \<open>
  \<open>int(s)\<close>: white space (tab, LF, VT, FF, CR, space) is stripped on both sides; then an
  optional sign and decimal digits, where single underscores may stand between digits.
  \<open>None\<close> is the \<open>ValueError\<close>. The interpreter's limit on the number of digits is not
  modelled.
\<close>

definition is_int_space :: "char \<Rightarrow> bool" where
  "is_int_space c = (c \<in> set [CHR 0x09, CHR 0x0A, CHR 0x0B, CHR 0x0C, CHR 0x0D, CHR 0x20])"

definition digit_val :: "char \<Rightarrow> nat option" where
  "digit_val c = map_of (zip ''0123456789'' [0, 1, 2, 3, 4, 5, 6, 7, 8, 9]) c"

fun parse_digits :: "nat \<Rightarrow> string \<Rightarrow> nat option" where
  "parse_digits acc [] = Some acc"
| "parse_digits acc [c] =
     (case digit_val c of Some v \<Rightarrow> Some (10 * acc + v) | None \<Rightarrow> None)"
| "parse_digits acc (c # d # ds) =
     (case digit_val c of
        Some v \<Rightarrow> parse_digits (10 * acc + v) (d # ds)
      | None \<Rightarrow>
          if c = CHR ''_''
          then (case digit_val d of
                  Some w \<Rightarrow> parse_digits (10 * acc + w) ds
                | None \<Rightarrow> None)
          else None)"

definition parse_nat :: "string \<Rightarrow> nat option" where
  "parse_nat s =
     (case s of
        [] \<Rightarrow> None
      | c # cs \<Rightarrow> (case digit_val c of Some v \<Rightarrow> parse_digits v cs | None \<Rightarrow> None))"

definition py_strip :: "string \<Rightarrow> string" where
  "py_strip s = rev (dropWhile is_int_space (rev (dropWhile is_int_space s)))"

definition py_int :: "string \<Rightarrow> int option" where
  "py_int s =
     (case py_strip s of
        [] \<Rightarrow> None
      | c # cs \<Rightarrow>
          if c = CHR ''+'' then map_option int (parse_nat cs)
          else if c = CHR ''-'' then map_option (\<lambda>n. - int n) (parse_nat cs)
          else map_option int (parse_nat (c # cs)))"

section \<open>The session tables\<close>

text \<open>
  A row of the provider's lap table with the columns the code reads, and a row of the
  results table. \<open>Stint\<close>, \<open>Compound\<close> and \<open>Position\<close> may be missing (\<open>None\<close>). The
  \<open>Time\<close> cell of a result is whatever the provider stores; the code hands it to
  \<open>pd.to_timedelta\<close>.
\<close>

record lap =
  Driver :: string
  LapNumber :: int
  LapTime :: timedelta
  Stint :: "int option"
  Compound :: "string option"

record 'c driver_result =
  Abbreviation :: string
  DriverNumber :: string
  Position :: "int option"
  Time :: 'c

record 'c session_data =
  results :: "'c driver_result list"
  laps :: "lap list"

text \<open>
  \<open>RaceDataRetriever.load_session\<close> stores the session object before loading it, so
  after a failed load the retriever holds an unloaded session.
\<close>

datatype 'c session_obj = Unloaded | Loaded "'c session_data"

datatype 'c load_outcome = GetSessionFailed | LoadFailed | LoadOk "'c session_data"

section \<open>RaceAnalysis\<close>

text \<open>
  \<open>pd.to_timedelta\<close> is pandas, so it is a parameter \<open>to_td\<close>: \<open>Inr d\<close> when the cell
  converts (\<open>d = NaT\<close> for a missing value), \<open>Inl ValueError\<close> when it cannot be parsed.
  The result \<open>Inr None\<close> is Python's \<open>None\<close>, returned after the failure was printed.
\<close>

definition get_winner_race_time ::
  "('c \<Rightarrow> py_error + timedelta) \<Rightarrow> 'c driver_result list \<Rightarrow> py_error + timedelta option" where
  "get_winner_race_time to_td res =
     (case filter (\<lambda>r. Position r = Some 1) res of
        [] \<Rightarrow> Inr None
      | w # _ \<Rightarrow>
          (case to_td (Time w) of
             Inr t \<Rightarrow> Inr (Some t)
           | Inl e \<Rightarrow> if e = ValueError then Inr None else Inl e))"

definition get_driver_race_time ::
  "('c \<Rightarrow> py_error + timedelta) \<Rightarrow> 'c driver_result list \<Rightarrow> string
     \<Rightarrow> py_error + timedelta option" where
  "get_driver_race_time to_td res driver_code =
     (case filter (\<lambda>r. Position r = Some 1) res of
        [] \<Rightarrow> Inl IndexError
      | winner_data # _ \<Rightarrow>
          (case get_winner_race_time to_td res of
             Inl e \<Rightarrow> Inl e
           | Inr None \<Rightarrow> Inr None
           | Inr (Some winner_race_time) \<Rightarrow>
               if driver_code = Abbreviation winner_data then Inr (Some winner_race_time)
               else
                 (case filter (\<lambda>r. Abbreviation r = driver_code) res of
                    [] \<Rightarrow> Inr None
                  | d # _ \<Rightarrow>
                      (case to_td (Time d) of
                         Inr time_behind \<Rightarrow> Inr (Some (td_add winner_race_time time_behind))
                       | Inl e \<Rightarrow> if e = ValueError then Inr None else Inl e))))"

section \<open>RaceStrategySimulator\<close>

text \<open>
  The object's fields, with the two attributes of its \<open>data_retriever\<close> the code uses:
  \<open>session\<close>, and \<open>lap_data\<close>, which exists only once set (\<open>None\<close> is the absent
  attribute). \<open>total_laps\<close> is \<open>None\<close> for \<open>nan\<close>, the maximum of an empty column.
\<close>

record 'c simulator =
  session :: "'c session_obj option"
  lap_data :: "lap list option option"
  analysis :: "'c driver_result list option"
  user_strategy :: "(string \<times> int) list"
  simulated_lap_times :: "timedelta list"
  total_laps :: "int option"
  driver_code :: "string option"

definition init_simulator :: "'c simulator" where
  "init_simulator =
     \<lparr>session = None, lap_data = None, analysis = None, user_strategy = [],
      simulated_lap_times = [], total_laps = Some 0, driver_code = None\<rparr>"

definition compound_performance_factor :: "string \<rightharpoonup> pyfloat" where
  "compound_performance_factor =
     map_of [(''SOFT'', double 1.018), (''MEDIUM'', double 1.038), (''HARD'', double 1.058),
             (''WET'', double 1.098), (''INTERMEDIATE'', double 1.078)]"

definition load_session :: "'c load_outcome \<Rightarrow> 'c simulator \<Rightarrow> 'c session_data option \<times> 'c simulator" where
  "load_session provider s =
     (case provider of
        GetSessionFailed \<Rightarrow> (None, s)
      | LoadFailed \<Rightarrow> (None, s\<lparr>session := Some Unloaded\<rparr>)
      | LoadOk d \<Rightarrow> (Some d, s\<lparr>session := Some (Loaded d)\<rparr>))"

definition column_max :: "int list \<Rightarrow> int option" where
  "column_max xs = (if xs = [] then None else Some (Max (set xs)))"

definition load_and_initialize_data :: "'c load_outcome \<Rightarrow> 'c simulator \<Rightarrow> 'c simulator" where
  "load_and_initialize_data provider s =
     (case load_session provider s of
        (Some d, s') \<Rightarrow>
          s'\<lparr>analysis := Some (results d), total_laps := column_max (map LapNumber (laps d))\<rparr>
      | (None, s') \<Rightarrow> s')"

definition get_lap_data :: "'c simulator \<Rightarrow> lap list option" where
  "get_lap_data s =
     (case session s of
        None \<Rightarrow> None
      | Some Unloaded \<Rightarrow> None
      | Some (Loaded d) \<Rightarrow> Some (laps d))"

definition get_race_data :: "'c simulator \<Rightarrow> 'c driver_result list option" where
  "get_race_data s =
     (case session s of
        None \<Rightarrow> None
      | Some Unloaded \<Rightarrow> None
      | Some (Loaded d) \<Rightarrow> Some (results d))"

text \<open>The idiom \<open>if not hasattr(self.data_retriever, 'lap_data'): ... = get_lap_data()\<close>.\<close>

definition ensure_lap_data :: "'c simulator \<Rightarrow> 'c simulator" where
  "ensure_lap_data s =
     (case lap_data s of
        None \<Rightarrow> s\<lparr>lap_data := Some (get_lap_data s)\<rparr>
      | Some _ \<Rightarrow> s)"

definition did_driver_finish :: "'c simulator \<Rightarrow> string \<Rightarrow> py_error + (bool \<times> 'c simulator)" where
  "did_driver_finish s code =
     (let s' = ensure_lap_data s
      in case lap_data s' of
           Some (Some tbl) \<Rightarrow>
             Inr (total_laps s' = Some (int (length (filter (\<lambda>l. Driver l = code) tbl))), s')
         | _ \<Rightarrow> Inl TypeError)"

text \<open>The body of the loop of \<open>calculate_driver_averages\<close>: the value stored for one compound.\<close>

definition compound_average :: "lap list \<Rightarrow> string \<Rightarrow> string \<Rightarrow> pyfloat" where
  "compound_average tbl code compound_upper =
     (let compound_laps =
            filter (\<lambda>l. Driver l = code \<and> map_option py_upper (Compound l) = Some compound_upper) tbl
      in if compound_laps \<noteq> []
         then total_seconds (td_mean (map LapTime compound_laps))
         else total_seconds (td_mean (map LapTime tbl)))"

fun driver_averages_loop ::
  "lap list \<Rightarrow> string \<Rightarrow> (string \<times> int) list \<Rightarrow> (string \<rightharpoonup> pyfloat) \<Rightarrow> (string \<rightharpoonup> pyfloat)" where
  "driver_averages_loop tbl code [] driver_averages = driver_averages"
| "driver_averages_loop tbl code ((compound, _) # rest) driver_averages =
     (let compound_upper = py_upper compound
      in driver_averages_loop tbl code rest
           (driver_averages(compound_upper \<mapsto> compound_average tbl code compound_upper)))"

definition calculate_driver_averages ::
  "'c simulator \<Rightarrow> string \<Rightarrow> py_error + ((string \<rightharpoonup> pyfloat) \<times> 'c simulator)" where
  "calculate_driver_averages s code =
     (let s' = ensure_lap_data s
      in case get_lap_data s' of
           Some tbl \<Rightarrow> Inr (driver_averages_loop tbl code (user_strategy s') Map.empty, s')
         | None \<Rightarrow> if user_strategy s' = [] then Inr (Map.empty, s') else Inl TypeError)"

text \<open>
  The random source is a sequence \<open>rng\<close> of the values \<open>np.random.uniform(-0.005, 0.005)\<close>
  returns, read at a position that advances by one with every draw. The products and
  the sum of a lap are float operations; the factor is the float stored in the table.
\<close>

fun stint_samples ::
  "pyfloat \<Rightarrow> pyfloat \<Rightarrow> (nat \<Rightarrow> rat) \<Rightarrow> nat \<Rightarrow> nat \<Rightarrow> py_error + timedelta list" where
  "stint_samples base factor rng pos 0 = Inr []"
| "stint_samples base factor rng pos (Suc n) =
     (let deviation = fmul (Float (rng pos)) base;
          lap_time_with_deviation = fadd (fmul base factor) deviation
      in case Timedelta_seconds lap_time_with_deviation of
           Inl e \<Rightarrow> Inl e
         | Inr t \<Rightarrow>
             (case stint_samples base factor rng (Suc pos) n of
                Inl e \<Rightarrow> Inl e
              | Inr ts \<Rightarrow> Inr (t # ts)))"

fun default_samples :: "(nat \<Rightarrow> rat) \<Rightarrow> nat \<Rightarrow> nat \<Rightarrow> py_error + timedelta list" where
  "default_samples rng pos 0 = Inr []"
| "default_samples rng pos (Suc n) =
     (let deviation = fmul (Float (rng pos)) (Float 90)
      in case Timedelta_seconds (fadd (Float 90) deviation) of
           Inl e \<Rightarrow> Inl e
         | Inr t \<Rightarrow>
             (case default_samples rng (Suc pos) n of
                Inl e \<Rightarrow> Inl e
              | Inr ts \<Rightarrow> Inr (t # ts)))"

fun simulate_loop ::
  "(string \<rightharpoonup> pyfloat) \<Rightarrow> (nat \<Rightarrow> rat) \<Rightarrow> (string \<times> int) list \<Rightarrow> nat
     \<Rightarrow> py_error + (timedelta list \<times> nat)" where
  "simulate_loop driver_averages rng [] pos = Inr ([], pos)"
| "simulate_loop driver_averages rng ((compound, n) # rest) pos =
     (let compound_upper = py_upper compound
      in case driver_averages compound_upper of
           Some base_lap_time \<Rightarrow>
             (case compound_performance_factor compound_upper of
                None \<Rightarrow> Inl KeyError
              | Some compound_factor \<Rightarrow>
                  (case stint_samples base_lap_time compound_factor rng pos (nat n) of
                     Inl e \<Rightarrow> Inl e
                   | Inr ts \<Rightarrow>
                       (case simulate_loop driver_averages rng rest (pos + nat n) of
                          Inl e \<Rightarrow> Inl e
                        | Inr (ts', pos') \<Rightarrow> Inr (ts @ ts', pos'))))
         | None \<Rightarrow>
             (case default_samples rng pos (nat n) of
                Inl e \<Rightarrow> Inl e
              | Inr ts \<Rightarrow>
                  (case simulate_loop driver_averages rng rest (pos + nat n) of
                     Inl e \<Rightarrow> Inl e
                   | Inr (ts', pos') \<Rightarrow> Inr (ts @ ts', pos'))))"

definition simulate_lap_times ::
  "'c simulator \<Rightarrow> string \<Rightarrow> (nat \<Rightarrow> rat) \<Rightarrow> nat
     \<Rightarrow> py_error + (timedelta list \<times> nat \<times> 'c simulator)" where
  "simulate_lap_times s code rng pos =
     (case did_driver_finish s code of
        Inl e \<Rightarrow> Inl e
      | Inr (finished, s1) \<Rightarrow>
          if \<not> finished then Inr ([], pos, s1)
          else
            (case calculate_driver_averages s1 code of
               Inl e \<Rightarrow> Inl e
             | Inr (driver_averages, s2) \<Rightarrow>
                 (case simulate_loop driver_averages rng (user_strategy s2) pos of
                    Inl e \<Rightarrow> Inl e
                  | Inr (ts, pos') \<Rightarrow> Inr (ts, pos', s2))))"

subsection \<open>Entering the strategy\<close>

text \<open>
  \<open>input()\<close> takes the next line of the console, a list of lines; at its end
  \<open>input()\<close> raises \<open>EOFError\<close>, which nothing catches. An exception raised inside the
  \<open>try\<close> comes with the lines still unread.

  The inner \<open>while\<close> loop of \<open>input_strategy\<close>, for one stint: a line that does not
  split into two tokens, or whose second token is no integer, raises \<open>ValueError\<close>; a
  lap count that is not positive asks for the same stint again.
\<close>

fun read_stint :: "string list \<Rightarrow> (py_error \<times> string list) + ((string \<times> int) \<times> string list)" where
  "read_stint [] = Inl (EOFError, [])"
| "read_stint (stint_info # inp) =
     (case py_split stint_info of
        [compound, laps_str] \<Rightarrow>
          (case py_int laps_str of
             None \<Rightarrow> Inl (ValueError, inp)
           | Some n \<Rightarrow>
               if n \<le> 0 then read_stint inp
               else Inr ((py_upper compound, n), inp))
      | _ \<Rightarrow> Inl (ValueError, inp))"

text \<open>The \<open>for\<close> loop over the stints, appending each to the strategy.\<close>

fun read_stints ::
  "nat \<Rightarrow> string list \<Rightarrow> (py_error \<times> string list) + ((string \<times> int) list \<times> string list)" where
  "read_stints 0 inp = Inr ([], inp)"
| "read_stints (Suc k) inp =
     (case read_stint inp of
        Inl e \<Rightarrow> Inl e
      | Inr (st, inp') \<Rightarrow>
          (case read_stints k inp' of
             Inl e \<Rightarrow> Inl e
           | Inr (sts, inp'') \<Rightarrow> Inr (st # sts, inp'')))"

text \<open>
  One pass of the outer \<open>while\<close> loop, which starts from an empty strategy. A
  rejection names the message the code prints before it asks again; an accepted plan is
  what the code leaves in \<open>user_strategy\<close>.
\<close>

datatype rejection = InvalidNumber | TooFewStints | LapSumMismatch

datatype attempt = Accepted "(string \<times> int) list" | Rejected rejection | Raised py_error

definition plan_attempt :: "int option \<Rightarrow> string list \<Rightarrow> attempt \<times> string list" where
  "plan_attempt race_laps inp =
     (case inp of
        [] \<Rightarrow> (Raised EOFError, [])
      | l # inp1 \<Rightarrow>
          (case py_int l of
             None \<Rightarrow> (Rejected InvalidNumber, inp1)
           | Some num_stints \<Rightarrow>
               if num_stints < 2 then (Rejected TooFewStints, inp1)
               else
                 (case read_stints (nat num_stints) inp1 of
                    Inl (e, inp2) \<Rightarrow>
                      if e = ValueError then (Rejected InvalidNumber, inp2) else (Raised e, inp2)
                  | Inr (plan, inp2) \<Rightarrow>
                      if Some (sum_list (map snd plan)) \<noteq> race_laps
                      then (Rejected LapSumMismatch, inp2)
                      else (Accepted plan, inp2))))"

lemma read_stint_length:
  "read_stint inp = Inr (st, rest) \<Longrightarrow> length rest < length inp"
  by (induction inp) (auto split: list.splits option.splits if_splits)

lemma read_stint_length_err:
  "read_stint inp = Inl (e, rest) \<Longrightarrow> length rest \<le> length inp"
  by (induction inp) (auto split: list.splits option.splits if_splits)

lemma read_stints_length:
  "read_stints k inp = Inr (plan, rest) \<Longrightarrow> length rest \<le> length inp"
proof (induction k arbitrary: inp plan)
  case 0
  then show ?case by simp
next
  case (Suc k)
  then show ?case
    by (fastforce split: sum.splits prod.splits dest: read_stint_length)
qed

lemma read_stints_length_err:
  "read_stints k inp = Inl (e, rest) \<Longrightarrow> length rest \<le> length inp"
proof (induction k arbitrary: inp)
  case 0
  then show ?case by simp
next
  case (Suc k)
  then show ?case
    by (fastforce split: sum.splits prod.splits dest: read_stint_length read_stint_length_err)
qed

lemma plan_attempt_rejected_length:
  "plan_attempt race_laps inp = (Rejected r, rest) \<Longrightarrow> length rest < length inp"
  by (auto simp: plan_attempt_def less_Suc_eq_le
      split: list.splits option.splits if_splits sum.splits prod.splits
      dest: read_stints_length read_stints_length_err)

function input_strategy ::
  "int option \<Rightarrow> string list \<Rightarrow> py_error + ((string \<times> int) list \<times> string list)" where
  "input_strategy race_laps inp =
     (case plan_attempt race_laps inp of
        (Accepted plan, rest) \<Rightarrow> Inr (plan, rest)
      | (Raised e, rest) \<Rightarrow> Inl e
      | (Rejected r, rest) \<Rightarrow> input_strategy race_laps rest)"
  by pat_completeness auto
termination
  by (relation "measure (\<lambda>(race_laps, inp). length inp)")
    (auto dest: plan_attempt_rejected_length [OF sym])

subsection \<open>Choosing the driver\<close>

definition create_driver_mappings ::
  "'c driver_result list \<Rightarrow> (string \<rightharpoonup> string) \<times> (string \<rightharpoonup> string)" where
  "create_driver_mappings res =
     (map_of (rev (map (\<lambda>r. (DriverNumber r, Abbreviation r)) res)),
      map_of (rev (map (\<lambda>r. (Abbreviation r, DriverNumber r)) res)))"

fun get_drivers_loop ::
  "(string \<rightharpoonup> string) \<Rightarrow> (string \<rightharpoonup> string) \<Rightarrow> string list \<Rightarrow> py_error + (string \<times> string list)" where
  "get_drivers_loop num_to_abbreviation abbreviation_to_num [] = Inl EOFError"
| "get_drivers_loop num_to_abbreviation abbreviation_to_num (l # inp) =
     (let input_id = py_upper l
      in case num_to_abbreviation input_id of
           Some a \<Rightarrow> Inr (a, inp)
         | None \<Rightarrow>
             (case abbreviation_to_num input_id of
                Some _ \<Rightarrow> Inr (input_id, inp)
              | None \<Rightarrow> get_drivers_loop num_to_abbreviation abbreviation_to_num inp))"

text \<open>
  The two dictionaries are built from the result rows in order, a later row replacing an
  earlier one with the same key. Without a session \<open>create_driver_mappings\<close> returns
  \<open>None\<close>, which cannot be unpacked; on a session that is not loaded the provider
  raises when \<open>results\<close> is read.
\<close>

definition get_drivers ::
  "'c load_outcome \<Rightarrow> 'c simulator \<Rightarrow> string list
     \<Rightarrow> py_error + (string \<times> string list \<times> 'c simulator)" where
  "get_drivers provider s inp =
     (let s1 = (if session s = None then load_and_initialize_data provider s else s)
      in case session s1 of
           None \<Rightarrow> Inl TypeError
         | Some Unloaded \<Rightarrow> Inl DataNotLoadedError
         | Some (Loaded d) \<Rightarrow>
             (case get_race_data s1 of
                None \<Rightarrow> Inl AttributeError
              | Some res \<Rightarrow>
                  (let (num_to_abbreviation, abbreviation_to_num) = create_driver_mappings res
                   in case get_drivers_loop num_to_abbreviation abbreviation_to_num inp of
                        Inl e \<Rightarrow> Inl e
                      | Inr (code, rest) \<Rightarrow> Inr (code, rest, s1))))"

subsection \<open>Comparison and the whole run\<close>

text \<open>
  What \<open>compare_strategy\<close> computes before it prints: the driver's actual race time, the
  sum of the simulated laps, and which of the two closing lines applies. The table of
  stints it prints is console output and not part of the value; its length
  \<open>int(max_stints)\<close> raises \<open>ValueError\<close> when the driver has no lap with a stint and a
  compound, since the maximum of the empty \<open>Stint\<close> column is \<open>nan\<close>.
\<close>

record comparison =
  actual_race_time :: timedelta
  total_simulated_time :: timedelta
  slower :: bool

fun td_diff_positive :: "timedelta \<Rightarrow> timedelta \<Rightarrow> bool" where
  "td_diff_positive (Timedelta a) (Timedelta b) = (a - b > 0)"
| "td_diff_positive _ _ = False"

definition compare_strategy ::
  "('c \<Rightarrow> py_error + timedelta) \<Rightarrow> 'c simulator \<Rightarrow> string \<Rightarrow> py_error + comparison option" where
  "compare_strategy to_td s code =
     (case analysis s of
        None \<Rightarrow> Inl AttributeError
      | Some res \<Rightarrow>
          (case get_driver_race_time to_td res code of
             Inl e \<Rightarrow> Inl e
           | Inr actual \<Rightarrow>
               (let simulated = foldl td_add (Timedelta 0) (simulated_lap_times s)
                in case get_lap_data s of
                     None \<Rightarrow> Inl TypeError
                   | Some tbl \<Rightarrow>
                       (case actual of
                          None \<Rightarrow> Inr None
                        | Some t \<Rightarrow>
                            if filter (\<lambda>l. Driver l = code \<and> Stint l \<noteq> None \<and> Compound l \<noteq> None) tbl = []
                            then Inl ValueError
                            else Inr (Some \<lparr>actual_race_time = t, total_simulated_time = simulated,
                                            slower = td_diff_positive simulated t\<rparr>)))))"

text \<open>
  \<open>run_simulation\<close>, with the console lines and the position in the random sequence
  passed through. An exception leaves the run (\<open>Inl\<close>).
\<close>

definition run_simulation ::
  "('c \<Rightarrow> py_error + timedelta) \<Rightarrow> 'c load_outcome \<Rightarrow> 'c simulator \<Rightarrow> string list
     \<Rightarrow> (nat \<Rightarrow> rat) \<Rightarrow> nat \<Rightarrow> py_error + ('c simulator \<times> string list \<times> nat)" where
  "run_simulation to_td provider s inp rng pos =
     (let s1 = (if analysis s = None then load_and_initialize_data provider s else s)
      in if analysis s1 = None then Inr (s1, inp, pos)
         else
           (case get_drivers provider s1 inp of
              Inl e \<Rightarrow> Inl e
            | Inr (code, inp1, s2) \<Rightarrow>
                (let s3 = s2\<lparr>driver_code := Some code\<rparr>
                 in if code = [] then Inr (s3, inp1, pos)
                    else
                      (case did_driver_finish s3 code of
                         Inl e \<Rightarrow> Inl e
                       | Inr (finished, s4) \<Rightarrow>
                           if \<not> finished then Inr (s4, inp1, pos)
                           else
                             (case input_strategy (total_laps s4) inp1 of
                                Inl e \<Rightarrow> Inl e
                              | Inr (plan, inp2) \<Rightarrow>
                                  (case simulate_lap_times (s4\<lparr>user_strategy := plan\<rparr>) code rng pos of
                                     Inl e \<Rightarrow> Inl e
                                   | Inr (ts, pos', s5) \<Rightarrow>
                                       (let s6 = s5\<lparr>simulated_lap_times := ts\<rparr>
                                        in case compare_strategy to_td s6 code of
                                             Inl e \<Rightarrow> Inl e
                                           | Inr _ \<Rightarrow> Inr (s6, inp2, pos'))))))))"

section \<open>Auxiliary notions and example data\<close>

text \<open>The plan unrolled lap by lap: the upper-cased compound of every planned lap, in order.\<close>

definition lap_compounds :: "(string \<times> int) list \<Rightarrow> string list" where
  "lap_compounds plan = concat (map (\<lambda>(c, n). replicate (nat n) (py_upper c)) plan)"

text \<open>Half the spacing of the smallest doubles, the rounding error near zero.\<close>

definition eta :: rat where
  "eta = 1 / 2 ^ 1075"

text \<open>
  The nanoseconds of a simulated lap with baseline \<open>b\<close>, factor \<open>f\<close> and draw \<open>u\<close> when
  no operation overflows: the two products, their sum and the scaling to nanoseconds are
  each rounded to a double, and the result is cut to an integer.
\<close>

definition lap_ns :: "rat \<Rightarrow> rat \<Rightarrow> rat \<Rightarrow> int" where
  "lap_ns b f u =
     float_to_int
       (round_to_double
          (round_to_double (round_to_double (b * f) + round_to_double (u * b)) * 1000000000))"

text \<open>
  A well-formed stint line: two tokens, the second an integer greater than zero. The
  result is the compound token as typed and the lap count.
\<close>

definition parse_stint_line :: "string \<Rightarrow> (string \<times> int) option" where
  "parse_stint_line l =
     (case py_split l of
        [tok, m] \<Rightarrow>
          (case py_int m of
             Some n \<Rightarrow> if 0 < n then Some (tok, n) else None
           | None \<Rightarrow> None)
      | _ \<Rightarrow> None)"

text \<open>
  A small session used to evaluate the functions: two drivers with two laps each, and a
  third who retired after one lap.
\<close>

definition example_laps :: "lap list" where
  "example_laps =
     [\<lparr>Driver = ''AAA'', LapNumber = 1, LapTime = Timedelta 90, Stint = Some 1, Compound = Some ''MEDIUM''\<rparr>,
      \<lparr>Driver = ''BBB'', LapNumber = 1, LapTime = Timedelta 100, Stint = Some 1, Compound = Some ''SOFT''\<rparr>,
      \<lparr>Driver = ''AAA'', LapNumber = 2, LapTime = Timedelta 92, Stint = Some 2, Compound = Some ''Hard''\<rparr>,
      \<lparr>Driver = ''BBB'', LapNumber = 2, LapTime = NaT, Stint = Some 1, Compound = Some ''SOFT''\<rparr>,
      \<lparr>Driver = ''CCC'', LapNumber = 1, LapTime = NaT, Stint = Some 1, Compound = None\<rparr>]"

definition example_results :: "timedelta driver_result list" where
  "example_results =
     [\<lparr>Abbreviation = ''BBB'', DriverNumber = ''44'', Position = Some 2, Time = Timedelta 12.345\<rparr>,
      \<lparr>Abbreviation = ''AAA'', DriverNumber = ''1'', Position = Some 1, Time = Timedelta 5400\<rparr>,
      \<lparr>Abbreviation = ''CCC'', DriverNumber = ''7'', Position = None, Time = NaT\<rparr>]"

definition example_session :: "timedelta session_data" where
  "example_session = \<lparr>results = example_results, laps = example_laps\<rparr>"

definition example_simulator :: "timedelta simulator" where
  "example_simulator =
     init_simulator\<lparr>session := Some (Loaded example_session),
                    analysis := Some example_results,
                    total_laps := Some 2,
                    user_strategy := [(''Soft'', 1), (''hard'', 1)]\<rparr>"

definition example_rng :: "nat \<Rightarrow> rat" where
  "example_rng i = (if i = 0 then - 0.005 else 0.001)"

text \<open>A results table without positions: no row has position 1.\<close>

definition no_winner_results :: "timedelta driver_result list" where
  "no_winner_results =
     [\<lparr>Abbreviation = ''VER'', DriverNumber = ''1'', Position = None, Time = NaT\<rparr>,
      \<lparr>Abbreviation = ''HAM'', DriverNumber = ''44'', Position = None, Time = NaT\<rparr>]"

text \<open>
  A three-lap session for the sampling: one driver with two laps on soft tyres and one on
  hard tyres, a plan of two stints whose first has two laps, and three draws, the first
  the least double above \<open>-0.005\<close>, then the double \<open>0.001\<close> and the greatest double below
  \<open>0.005\<close>.
\<close>

definition sprint_laps :: "lap list" where
  "sprint_laps =
     [\<lparr>Driver = ''VER'', LapNumber = 1, LapTime = Timedelta 80, Stint = Some 1, Compound = Some ''SOFT''\<rparr>,
      \<lparr>Driver = ''PER'', LapNumber = 1, LapTime = Timedelta 85, Stint = Some 1, Compound = Some ''MEDIUM''\<rparr>,
      \<lparr>Driver = ''VER'', LapNumber = 2, LapTime = Timedelta 80, Stint = Some 1, Compound = Some ''SOFT''\<rparr>,
      \<lparr>Driver = ''PER'', LapNumber = 2, LapTime = Timedelta 85, Stint = Some 1, Compound = Some ''MEDIUM''\<rparr>,
      \<lparr>Driver = ''VER'', LapNumber = 3, LapTime = Timedelta 90, Stint = Some 2, Compound = Some ''HARD''\<rparr>]"

definition sprint_simulator :: "timedelta simulator" where
  "sprint_simulator =
     init_simulator\<lparr>session := Some (Loaded \<lparr>results = [], laps = sprint_laps\<rparr>),
                    analysis := Some [],
                    total_laps := Some 3,
                    user_strategy := [(''soft'', 2), (''Hard'', 1)]\<rparr>"

definition sprint_rng :: "nat \<Rightarrow> rat" where
  "sprint_rng i =
     (if i = 0 then - 5764607523034234 / 2 ^ 60
      else if i = 1 then 1152921504606847 / 2 ^ 60
      else 5764607523034234 / 2 ^ 60)"

section \<open>Properties\<close>

subsection \<open>Rounding error\<close>

lemma round_half_even_error: "\<bar>of_int (round_half_even m) - m\<bar> \<le> 1 / 2"
proof -
  have "of_int \<lfloor>m\<rfloor> \<le> m" "m < of_int \<lfloor>m\<rfloor> + 1"
    by linarith+
  then show ?thesis
    by (auto simp: round_half_even_def Let_def)
qed

lemma binade_le:
  assumes "x \<noteq> 0"
  shows "2 powi (binade x) \<le> \<bar>x\<bar>"
proof -
  obtain p q where pq: "quotient_of \<bar>x\<bar> = (p, q)" by (cases "quotient_of \<bar>x\<bar>")
  then have q: "0 < q" and x: "\<bar>x\<bar> = of_int p / of_int q"
    by (auto dest: quotient_of_denom_pos quotient_of_div)
  from assms have "0 < \<bar>x\<bar>" by simp
  with x have "0 < (of_int p :: rat) / of_int q" by simp
  with q have p: "0 < p" by (simp add: zero_less_divide_iff)
  let ?e = "bitlen p - bitlen q"
  show ?thesis
  proof (cases "(2::rat) powi ?e \<le> \<bar>x\<bar>")
    case True
    then show ?thesis by (simp add: binade_def pq)
  next
    case False
    from bitlen_bounds [OF p] have "2 ^ nat (bitlen p - 1) \<le> p" by simp
    then have "(2::rat) ^ nat (bitlen p - 1) \<le> of_int p"
      by (metis of_int_le_iff of_int_numeral of_int_power)
    moreover from p have "1 \<le> bitlen p" by (simp add: bitlen_alt_def)
    ultimately have lo: "(2::rat) powi (bitlen p - 1) \<le> of_int p"
      by (simp add: power_int_def)
    from bitlen_bounds [OF q] have "q < 2 ^ nat (bitlen q)" by simp
    then have "of_int q < (2::rat) ^ nat (bitlen q)"
      by (metis of_int_less_iff of_int_numeral of_int_power)
    then have hi: "of_int q \<le> (2::rat) powi (bitlen q)"
      by (simp add: power_int_def bitlen_nonneg)
    have "(2::rat) powi (?e - 1) = 2 powi (bitlen p - 1) / 2 powi (bitlen q)"
      using power_int_diff [of "2::rat" "bitlen p - 1" "bitlen q"]
      by (simp add: algebra_simps)
    also have "\<dots> \<le> of_int p / of_int q"
      using lo hi q p by (intro frac_le) auto
    finally have "(2::rat) powi (?e - 1) \<le> \<bar>x\<bar>" by (simp only: x)
    moreover have "binade x = ?e - 1"
      using False by (simp add: binade_def pq)
    ultimately show ?thesis by simp
  qed
qed

lemma round_to_double_error:
  "\<bar>round_to_double x - x\<bar> \<le> \<bar>x\<bar> / 2 ^ 53 + eta"
proof (cases "x = 0")
  case True
  then show ?thesis by (simp add: round_to_double_def eta_def)
next
  case False
  let ?ulp = "(2::rat) powi (max (binade x) (- 1022) - 52)"
  have ulp: "0 < ?ulp" by simp
  have "round_to_double x - x = (of_int (round_half_even (x / ?ulp)) - x / ?ulp) * ?ulp"
    using False ulp by (simp add: round_to_double_def Let_def algebra_simps)
  then have "\<bar>round_to_double x - x\<bar> = \<bar>of_int (round_half_even (x / ?ulp)) - x / ?ulp\<bar> * ?ulp"
    using ulp by (simp add: abs_mult)
  also have "\<dots> \<le> 1 / 2 * ?ulp"
    using round_half_even_error [of "x / ?ulp"] ulp by (intro mult_right_mono) auto
  also have "\<dots> \<le> \<bar>x\<bar> / 2 ^ 53 + eta"
  proof (cases "- 1022 \<le> binade x")
    case True
    then have "?ulp = 2 powi (binade x) / 2 ^ 52"
      using power_int_diff [of "2::rat" "binade x" 52] by (simp add: max_def)
    also have "\<dots> \<le> \<bar>x\<bar> / 2 ^ 52"
      using binade_le [OF False] by (intro divide_right_mono) auto
    finally have "1 / 2 * ?ulp \<le> \<bar>x\<bar> / 2 ^ 53" by simp
    moreover have "0 \<le> eta" by (simp add: eta_def)
    ultimately show ?thesis by linarith
  next
    case False
    then have "?ulp = 2 powi (- 1074)" by (simp add: max_def)
    also have "\<dots> = 1 / 2 ^ 1074" by (simp add: power_int_minus_divide)
    finally have "1 / 2 * ?ulp = eta" by (simp add: eta_def)
    then show ?thesis by simp
  qed
  finally show ?thesis .
qed

lemma eta_bounds: "0 < eta" "eta \<le> 1 / 10 ^ 20"
proof -
  show "0 < eta" by (simp add: eta_def)
  have "(10::rat) ^ 20 \<le> 2 ^ 70" by simp
  also have "\<dots> \<le> 2 ^ 1075" by (rule power_increasing) simp_all
  finally show "eta \<le> 1 / 10 ^ 20"
    unfolding eta_def by (intro divide_left_mono) simp_all
qed

lemma double_finite:
  assumes "\<bar>x\<bar> \<le> 10 ^ 30"
  shows "double x = Float (round_to_double x)"
proof -
  from round_to_double_error [of x] eta_bounds
  have "\<bar>round_to_double x - x\<bar> \<le> \<bar>x\<bar> / 2 ^ 53 + 1" by simp
  with assms have "\<bar>round_to_double x\<bar> \<le> 10 ^ 31" by simp
  also have "(10::rat) ^ 31 < 2 ^ 104" by simp
  also have "(2::rat) ^ 104 \<le> 2 ^ 1024" by (rule power_increasing) simp_all
  finally have "\<bar>round_to_double x\<bar> < 2 ^ 1024" .
  then show ?thesis by (auto simp: double_def Let_def)
qed

lemma float_to_int_error: "\<bar>of_int (float_to_int t) - t\<bar> \<le> 1" "\<bar>of_int (float_to_int t)\<bar> \<le> \<bar>t\<bar>"
  unfolding float_to_int_def by (auto; linarith)+

lemma lap_value_and_bound:
  fixes b f u :: rat
  assumes b: "0 < b" "b \<le> 8 * 10 ^ 9"
    and f: "1 \<le> f" "f \<le> 11 / 10"
    and u: "\<bar>u\<bar> \<le> 51 / 10000"
  shows "Timedelta_seconds (fadd (fmul (Float b) (Float f)) (fmul (Float u) (Float b))) =
           Inr (Timedelta (of_int (lap_ns b f u) / 1000000000)) \<and>
         \<bar>of_int (lap_ns b f u) / 1000000000 - (b * f + u * b)\<bar> \<le> 3 * b / 2 ^ 52 + 2 / 10 ^ 9"
proof -
  define p where "p = round_to_double (b * f)"
  define dv where "dv = round_to_double (u * b)"
  define s where "s = round_to_double (p + dv)"
  define t where "t = round_to_double (s * 1000000000)"
  define n where "n = float_to_int t"
  define e1 where "e1 = \<bar>p - b * f\<bar>"
  define e2 where "e2 = \<bar>dv - u * b\<bar>"
  define e3 where "e3 = \<bar>s - (p + dv)\<bar>"
  define e4 where "e4 = \<bar>t - s * 1000000000\<bar>"
  define a1 where "a1 = b * f"
  define a2 where "a2 = \<bar>u * b\<bar>"
  note eta = eta_bounds
  have a1: "0 \<le> a1" "a1 \<le> 11 / 10 * b"
    using b f by (simp_all add: a1_def mult_left_mono mult.commute)
  have "a2 = \<bar>u\<bar> * b" using b by (simp add: a2_def abs_mult)
  also have "\<dots> \<le> 51 / 10000 * b" using u b by (intro mult_right_mono) simp_all
  finally have a2: "0 \<le> a2" "a2 \<le> 51 / 10000 * b" by (simp_all add: a2_def)
  have e1: "e1 \<le> a1 / 2 ^ 53 + eta"
    using round_to_double_error [of "b * f"] a1(1) by (simp add: e1_def p_def a1_def)
  have e2: "e2 \<le> a2 / 2 ^ 53 + eta"
    using round_to_double_error [of "u * b"] by (simp add: e2_def dv_def a2_def)
  have pa: "\<bar>p\<bar> \<le> a1 + e1"
    unfolding e1_def a1_def using a1(1) unfolding a1_def by linarith
  have da: "\<bar>dv\<bar> \<le> a2 + e2"
    unfolding e2_def a2_def by linarith
  have pd: "\<bar>p + dv\<bar> \<le> a1 + a2 + e1 + e2"
    using pa da by linarith
  have e3: "e3 \<le> (a1 + a2 + e1 + e2) / 2 ^ 53 + eta"
  proof -
    have "e3 \<le> \<bar>p + dv\<bar> / 2 ^ 53 + eta"
      using round_to_double_error [of "p + dv"] by (simp add: e3_def s_def)
    also have "\<dots> \<le> (a1 + a2 + e1 + e2) / 2 ^ 53 + eta"
      using pd by (simp add: divide_right_mono)
    finally show ?thesis .
  qed
  have sa: "\<bar>s\<bar> \<le> a1 + a2 + e1 + e2 + e3"
    using pd unfolding e3_def by linarith
  have e4: "e4 \<le> (a1 + a2 + e1 + e2 + e3) * 1000000000 / 2 ^ 53 + eta"
  proof -
    have "e4 \<le> \<bar>s * 1000000000\<bar> / 2 ^ 53 + eta"
      using round_to_double_error [of "s * 1000000000"] by (simp add: e4_def t_def)
    also have "\<bar>s * 1000000000\<bar> = \<bar>s\<bar> * 1000000000" by (simp add: abs_mult)
    also have "\<bar>s\<bar> * 1000000000 / 2 ^ 53 + eta \<le>
                 (a1 + a2 + e1 + e2 + e3) * 1000000000 / 2 ^ 53 + eta"
      using sa by (simp add: divide_right_mono)
    finally show ?thesis .
  qed
  have "\<bar>s * 1000000000\<bar> \<le> (a1 + a2 + e1 + e2 + e3) * 1000000000"
    using sa by (simp add: abs_mult)
  then have ta: "\<bar>t\<bar> \<le> (a1 + a2 + e1 + e2 + e3) * 1000000000 + e4"
    unfolding e4_def by linarith
  have small: "e1 + e2 \<le> b / 2 ^ 52 + 2 * eta"
    using e1 e2 a1 a2 b by simp
  have mid: "a1 + a2 + e1 + e2 \<le> 1106 / 1000 * b + 2 * eta"
    using small a1 a2 b by simp
  have e3': "e3 \<le> b / 2 ^ 52 + 2 * eta"
    using e3 mid eta b by (simp add: add_divide_distrib; linarith)
  have s_size: "a1 + a2 + e1 + e2 + e3 \<le> 1107 / 1000 * b + 4 * eta"
    using mid e3' b by (simp add: add_divide_distrib; linarith)
  have e4': "e4 \<le> b * 1000000000 / 2 ^ 52 + 2 * eta"
    using e4 s_size eta b by (simp add: add_divide_distrib; linarith)
  have t_size: "\<bar>t\<bar> \<le> 1108 / 1000 * b * 1000000000 + 1"
    using ta s_size e4' eta b by (simp add: add_divide_distrib; linarith)
  have "\<bar>b * f\<bar> \<le> 10 ^ 30"
    using a1 b unfolding a1_def by (simp add: abs_of_nonneg; linarith)
  then have fin1: "double (b * f) = Float p"
    by (simp add: p_def double_finite)
  have "\<bar>u * b\<bar> \<le> 10 ^ 30"
    using a2 b unfolding a2_def by (simp; linarith)
  then have fin2: "double (u * b) = Float dv"
    by (simp add: dv_def double_finite)
  have "\<bar>p + dv\<bar> \<le> 10 ^ 30"
    using pd mid eta b by (simp; linarith)
  then have fin3: "double (p + dv) = Float s"
    by (simp add: s_def double_finite)
  have fin4: "double (s * 1000000000) = Float t"
  proof -
    have "\<bar>s * 1000000000\<bar> = \<bar>s\<bar> * 1000000000" by (simp add: abs_mult)
    also have "\<dots> \<le> 10 ^ 30" using sa s_size eta b by (simp; linarith)
    finally show ?thesis by (simp add: t_def double_finite)
  qed
  have n_size: "\<bar>of_int n :: rat\<bar> < 2 ^ 63"
  proof -
    have "\<bar>of_int n :: rat\<bar> \<le> \<bar>t\<bar>" unfolding n_def by (rule float_to_int_error)
    also have "\<dots> \<le> 1108 / 1000 * b * 1000000000 + 1" by (rule t_size)
    also have "\<dots> < 2 ^ 63" using b by (simp; linarith)
    finally show ?thesis .
  qed
  then have "\<bar>n\<bar> < 2 ^ 63"
    by (metis of_int_abs of_int_less_iff of_int_numeral of_int_power)
  then have range: "\<not> (2 ^ 63 \<le> n \<or> n < - (2 ^ 63))" "n \<noteq> - (2 ^ 63)"
    by linarith+
  have run: "Timedelta_seconds (fadd (fmul (Float b) (Float f)) (fmul (Float u) (Float b))) =
               Inr (Timedelta (of_int n / 1000000000))"
    using range by (simp add: fin1 fin2 fin3 fin4 n_def [symmetric] Let_def)
  have "\<bar>(of_int n :: rat) - t\<bar> \<le> 1" unfolding n_def by (rule float_to_int_error)
  then have "\<bar>(of_int n :: rat) - s * 1000000000\<bar> \<le> 1 + e4"
    unfolding e4_def by linarith
  then have "\<bar>(of_int n :: rat) / 1000000000 - s\<bar> \<le> (1 + e4) / 1000000000"
    by (simp add: field_simps abs_le_iff)
  moreover have "\<bar>s - (b * f + u * b)\<bar> \<le> e1 + e2 + e3"
    unfolding e1_def e2_def e3_def by linarith
  ultimately have "\<bar>(of_int n :: rat) / 1000000000 - (b * f + u * b)\<bar> \<le>
                     e1 + e2 + e3 + (1 + e4) / 1000000000"
    by linarith
  also have "\<dots> \<le> 3 * b / 2 ^ 52 + 2 / 10 ^ 9"
    using small e3' e4' eta b by (simp add: add_divide_distrib; linarith)
  finally have bound: "\<bar>(of_int n :: rat) / 1000000000 - (b * f + u * b)\<bar> \<le>
                         3 * b / 2 ^ 52 + 2 / 10 ^ 9" .
  have "lap_ns b f u = n"
    by (simp add: lap_ns_def n_def t_def s_def p_def dv_def)
  with run bound show ?thesis by simp
qed

subsection \<open>Upper-casing\<close>

lemma py_upper_char_idem: "py_upper_char (py_upper_char c) = py_upper_char c"
  by (simp add: py_upper_char_def)

lemma py_upper_idem: "py_upper (py_upper s) = py_upper s"
  by (simp add: py_upper_def py_upper_char_idem)

subsection \<open>Baselines\<close>

lemma driver_averages_loop_lookup:
  "driver_averages_loop tbl code plan m k =
     (if k \<in> py_upper ` fst ` set plan then Some (compound_average tbl code k) else m k)"
proof (induction plan arbitrary: m)
  case Nil
  then show ?case by simp
next
  case (Cons p plan)
  obtain c n where p: "p = (c, n)" by (cases p)
  show ?case by (simp add: p Let_def Cons.IH)
qed

lemma get_lap_data_ensure [simp]: "get_lap_data (ensure_lap_data s) = get_lap_data s"
  by (simp add: ensure_lap_data_def get_lap_data_def split: option.splits)

lemma user_strategy_ensure [simp]: "user_strategy (ensure_lap_data s) = user_strategy s"
  by (simp add: ensure_lap_data_def split: option.splits)

lemma calculate_driver_averages_loaded:
  assumes "get_lap_data s = Some tbl"
  shows "calculate_driver_averages s code =
           Inr (driver_averages_loop tbl code (user_strategy s) Map.empty, ensure_lap_data s)"
  using assms by (simp add: calculate_driver_averages_def Let_def)

text \<open>
  C1, as the code has it: when the driver has no lap on a compound of the plan, the
  baseline stored for that compound is the mean of the lap times of the whole lap table,
  all drivers and all compounds (missing lap times skipped). It is not the mean of the
  driver's own laps, as the example shows: there the table mean is 94 seconds and the
  driver's own mean is 91.
\<close>

theorem fallback_is_table_mean:
  assumes tbl: "get_lap_data s = Some tbl"
    and plan: "(c, n) \<in> set (user_strategy s)"
    and none: "filter (\<lambda>l. Driver l = code \<and> map_option py_upper (Compound l) = Some (py_upper c)) tbl = []"
  shows "\<exists>avgs s'. calculate_driver_averages s code = Inr (avgs, s') \<and>
           avgs (py_upper c) = Some (total_seconds (td_mean (map LapTime tbl)))"
proof -
  have mem: "py_upper c \<in> py_upper ` fst ` set (user_strategy s)"
    using plan by force
  have "compound_average tbl code (py_upper c) = total_seconds (td_mean (map LapTime tbl))"
    using none by (simp add: compound_average_def)
  with mem show ?thesis
    by (simp add: calculate_driver_averages_loaded [OF tbl] driver_averages_loop_lookup)
qed

lemma td_mean_example_laps: "td_mean (map LapTime example_laps) = Timedelta 94"
  by (simp add: example_laps_def td_mean_def)

theorem fallback_is_table_mean_witness:
  "\<exists>avgs s'. calculate_driver_averages example_simulator ''AAA'' = Inr (avgs, s') \<and>
      avgs ''SOFT'' = Some (Float 94)"
proof -
  have 1: "get_lap_data example_simulator = Some example_laps"
    by (simp add: example_simulator_def init_simulator_def get_lap_data_def example_session_def)
  have 2: "(''Soft'', 1) \<in> set (user_strategy example_simulator)"
    by (simp add: example_simulator_def init_simulator_def)
  have 3: "filter (\<lambda>l. Driver l = ''AAA'' \<and> map_option py_upper (Compound l) = Some (py_upper ''Soft''))
             example_laps = []"
    by (simp add: example_laps_def py_upper_def py_upper_char_def)
  have 4: "py_upper ''Soft'' = ''SOFT''"
    by (simp add: py_upper_def py_upper_char_def)
  show ?thesis
    using fallback_is_table_mean [OF 1 2 3] by (simp add: 4 td_mean_example_laps)
qed

theorem fallback_driver_mean_counterexample:
  "(case calculate_driver_averages example_simulator ''AAA'' of
      Inl e \<Rightarrow> None
    | Inr (avgs, s') \<Rightarrow> avgs ''SOFT'') = Some (Float 94) \<and>
   filter (\<lambda>l. Driver l = ''AAA'' \<and> map_option py_upper (Compound l) = Some ''SOFT'') example_laps = [] \<and>
   total_seconds (td_mean (map LapTime (filter (\<lambda>l. Driver l = ''AAA'') example_laps))) = Float 91"
proof -
  have 1: "get_lap_data example_simulator = Some example_laps"
    by (simp add: example_simulator_def init_simulator_def get_lap_data_def example_session_def)
  have 2: "py_upper ` fst ` set (user_strategy example_simulator) = {''SOFT'', ''HARD''}"
    by (simp add: example_simulator_def init_simulator_def py_upper_def py_upper_char_def)
  have 3: "compound_average example_laps ''AAA'' ''SOFT'' = Float 94"
    by (simp add: compound_average_def example_laps_def td_mean_def py_upper_def py_upper_char_def)
  have 4: "td_mean (map LapTime (filter (\<lambda>l. Driver l = ''AAA'') example_laps)) = Timedelta 91"
    by (simp add: example_laps_def td_mean_def)
  have 5: "filter (\<lambda>l. Driver l = ''AAA'' \<and> map_option py_upper (Compound l) = Some ''SOFT'') example_laps = []"
    by (simp add: example_laps_def py_upper_def py_upper_char_def)
  have 6: "(case calculate_driver_averages example_simulator ''AAA'' of
      Inl e \<Rightarrow> None
    | Inr (avgs, s') \<Rightarrow> avgs ''SOFT'') = Some (Float 94)"
    by (simp add: calculate_driver_averages_loaded [OF 1] driver_averages_loop_lookup 2 3)
  have 7: "total_seconds (td_mean (map LapTime (filter (\<lambda>l. Driver l = ''AAA'') example_laps))) = Float 91"
    by (simp add: 4)
  show ?thesis
    by (rule conjI [OF 6 conjI [OF 5 7]])
qed

subsection \<open>Actual race times\<close>

text \<open>
  C5: when the results have a winner, the first row with position 1, whose time converts
  to \<open>t\<close>, the winner's race time is \<open>t\<close>, and the race time of any other driver
  in the results whose recorded gap converts to \<open>g\<close> is \<open>t + g\<close>. In the example the
  winner's 1:30:00.000 and a gap of 12.345 seconds give 1:30:12.345.
\<close>

theorem winner_time_derivation:
  assumes win: "filter (\<lambda>r. Position r = Some 1) res = w # ws"
    and wt: "to_td (Time w) = Inr t"
  shows "get_winner_race_time to_td res = Inr (Some t) \<and>
         get_driver_race_time to_td res (Abbreviation w) = Inr (Some t) \<and>
         (code \<noteq> Abbreviation w \<longrightarrow>
          filter (\<lambda>r. Abbreviation r = code) res = d # ds \<longrightarrow>
          to_td (Time d) = Inr g \<longrightarrow>
            get_driver_race_time to_td res code = Inr (Some (td_add t g)))"
proof -
  have winner: "get_winner_race_time to_td res = Inr (Some t)"
    by (simp add: get_winner_race_time_def win wt)
  have self: "get_driver_race_time to_td res (Abbreviation w) = Inr (Some t)"
    by (simp add: get_driver_race_time_def win winner)
  have other: "get_driver_race_time to_td res code = Inr (Some (td_add t g))"
    if "code \<noteq> Abbreviation w" "filter (\<lambda>r. Abbreviation r = code) res = d # ds"
      "to_td (Time d) = Inr g"
    using that by (simp add: get_driver_race_time_def win winner)
  from winner self other show ?thesis by blast
qed

theorem winner_time_derivation_witness:
  "get_driver_race_time Inr example_results ''AAA'' = Inr (Some (Timedelta 5400)) \<and>
   get_driver_race_time Inr example_results ''BBB'' = Inr (Some (Timedelta 5412.345))"
proof -
  let ?w = "\<lparr>Abbreviation = ''AAA'', DriverNumber = ''1'', Position = Some 1, Time = Timedelta 5400\<rparr>"
  let ?d = "\<lparr>Abbreviation = ''BBB'', DriverNumber = ''44'', Position = Some 2, Time = Timedelta 12.345\<rparr>"
  have win: "filter (\<lambda>r. Position r = Some 1) example_results = ?w # []"
    by (simp add: example_results_def)
  have wt: "Inr (Time ?w) = (Inr (Timedelta 5400) :: py_error + timedelta)"
    by simp
  have drv: "filter (\<lambda>r. Abbreviation r = ''BBB'') example_results = ?d # []"
    by (simp add: example_results_def)
  have gap: "Inr (Time ?d) = (Inr (Timedelta 12.345) :: py_error + timedelta)"
    by simp
  from winner_time_derivation [of example_results ?w "[]" Inr "Timedelta 5400" "''BBB''" ?d "[]" "Timedelta 12.345",
      OF win wt] drv gap
  show ?thesis by simp
qed

text \<open>
  C6, where the code fails: with no row of position 1, \<open>get_driver_race_time\<close> reads
  \<open>.iloc[0]\<close> of an empty selection before it asks \<open>get_winner_race_time\<close>, so it
  raises \<open>IndexError\<close> instead of returning \<open>None\<close>, and so does its caller
  \<open>compare_strategy\<close>; \<open>get_winner_race_time\<close> itself handles the same table.
\<close>

theorem no_winner_raises:
  "get_driver_race_time Inr no_winner_results ''HAM'' = Inl IndexError \<and>
   get_winner_race_time Inr no_winner_results = Inr None \<and>
   get_driver_race_time Inr ([] :: timedelta driver_result list) ''HAM'' = Inl IndexError \<and>
   compare_strategy Inr (example_simulator\<lparr>analysis := Some no_winner_results\<rparr>) ''HAM'' =
     Inl IndexError"
  by (simp add: get_driver_race_time_def get_winner_race_time_def no_winner_results_def
      compare_strategy_def)

lemma get_driver_race_time_no_winner:
  "filter (\<lambda>r. Position r = Some 1) res = [] \<Longrightarrow> get_driver_race_time to_td res code = Inl IndexError"
  by (simp add: get_driver_race_time_def)

subsection \<open>Strategy entry\<close>

lemma read_stint_positive:
  "read_stint inp = Inr ((c, n), rest) \<Longrightarrow> 0 < n"
  by (induction inp) (auto split: list.splits option.splits if_splits)

lemma read_stints_shape:
  "read_stints k inp = Inr (plan, rest) \<Longrightarrow> length plan = k \<and> (\<forall>(c, n) \<in> set plan. 0 < n)"
proof (induction k arbitrary: inp plan)
  case 0
  then show ?case by simp
next
  case (Suc k)
  from Suc.prems obtain st inp' sts where
    st: "read_stint inp = Inr (st, inp')" and
    sts: "read_stints k inp' = Inr (sts, rest)" and
    plan: "plan = st # sts"
    by (auto split: sum.splits prod.splits)
  obtain c n where "st = (c, n)" by (cases st)
  with st have "0 < n" by (auto dest: read_stint_positive)
  with Suc.IH [OF sts] plan \<open>st = (c, n)\<close> show ?case by simp
qed

lemma plan_attempt_accepted:
  assumes "plan_attempt race_laps inp = (Accepted plan, rest)"
  shows "2 \<le> length plan \<and> (\<forall>(c, n) \<in> set plan. 0 < n) \<and>
         Some (sum_list (map snd plan)) = race_laps"
proof -
  from assms obtain l inp1 num_stints where
    inp: "inp = l # inp1" and num: "py_int l = Some num_stints" and two: "2 \<le> num_stints" and
    rd: "read_stints (nat num_stints) inp1 = Inr (plan, rest)" and
    sum: "Some (sum_list (map snd plan)) = race_laps"
    by (auto simp: plan_attempt_def split: list.splits option.splits if_splits sum.splits prod.splits)
  from read_stints_shape [OF rd] two sum show ?thesis by auto
qed

lemma input_strategy_accepted:
  "input_strategy race_laps inp = Inr (plan, rest) \<Longrightarrow>
     2 \<le> length plan \<and> (\<forall>(c, n) \<in> set plan. 0 < n) \<and>
     Some (sum_list (map snd plan)) = race_laps"
proof (induction race_laps inp rule: input_strategy.induct)
  case (1 race_laps inp)
  obtain a rest' where pa: "plan_attempt race_laps inp = (a, rest')"
    by (cases "plan_attempt race_laps inp")
  show ?case
  proof (cases a)
    case (Accepted p)
    with pa "1.prems" have "p = plan" "rest' = rest" by simp_all
    with pa Accepted show ?thesis by (auto dest: plan_attempt_accepted)
  next
    case (Rejected r)
    with pa "1.prems" have "input_strategy race_laps rest' = Inr (plan, rest)" by simp
    with "1.IH" pa Rejected show ?thesis by simp
  next
    case (Raised e)
    with pa "1.prems" show ?thesis by simp
  qed
qed

text \<open>
  C9: whatever the console input, a plan that \<open>input_strategy\<close> accepts has at least two
  stints, every stint has a lap count greater than zero, and the lap counts add up to the
  race length. So neither a single-stint plan nor a plan with a zero or negative lap
  count is ever accepted, whatever its sum.
\<close>

theorem accepted_plan_shape:
  assumes "input_strategy race_laps inp = Inr (plan, rest)"
  shows "2 \<le> length plan \<and> (\<forall>(c, n) \<in> set plan. 0 < n) \<and>
         Some (sum_list (map snd plan)) = race_laps"
  using assms by (rule input_strategy_accepted)

lemmas eval_input =
  plan_attempt_def py_int_def py_strip_def is_int_space_def parse_nat_def digit_val_def
  py_split_def is_space_def py_upper_def py_upper_char_def numeral_2_eq_2

lemma example_entry:
  "input_strategy (Some 58) [''1'', ''2'', ''Soft 58'', ''Medium 0'', ''x'', ''2'', ''soft 0'', ''Soft 20'', ''medium 38'', ''rest''] =
     Inr ([(''SOFT'', 20), (''MEDIUM'', 38)], [''rest''])"
  by (simp add: eval_input)

theorem accepted_plan_shape_witness:
  "input_strategy (Some 58) [''2'', ''Soft 20'', ''medium 38''] =
     Inr ([(''SOFT'', 20), (''MEDIUM'', 38)], []) \<and>
   2 \<le> length [(''SOFT'', 20 :: int), (''MEDIUM'', 38)] \<and>
   Some (sum_list (map snd [(''SOFT'', 20 :: int), (''MEDIUM'', 38)])) = Some 58"
proof -
  have run: "input_strategy (Some 58) [''2'', ''Soft 20'', ''medium 38''] =
     Inr ([(''SOFT'', 20), (''MEDIUM'', 38)], [])"
    by (simp add: eval_input)
  from accepted_plan_shape [OF run] run show ?thesis by simp
qed

lemma read_stint_wellformed:
  "parse_stint_line l = Some (tok, n) \<Longrightarrow> read_stint (l # inp) = Inr ((py_upper tok, n), inp)"
  by (auto simp: parse_stint_line_def split: list.splits option.splits if_splits)

lemma read_stints_wellformed:
  "list_all2 (\<lambda>l e. parse_stint_line l = Some e) ls entries \<Longrightarrow>
     read_stints (length ls) (ls @ rest) = Inr (map (\<lambda>(tok, n). (py_upper tok, n)) entries, rest)"
proof (induction ls entries rule: list_all2_induct)
  case Nil
  then show ?case by simp
next
  case (Cons l ls e entries)
  obtain tok n where e: "e = (tok, n)" by (cases e)
  with Cons.hyps have "parse_stint_line l = Some (tok, n)" by simp
  then have "read_stint (l # ls @ rest) = Inr ((py_upper tok, n), ls @ rest)"
    by (rule read_stint_wellformed)
  with Cons.IH e show ?case by (simp del: read_stint.simps)
qed

lemma plan_attempt_wellformed:
  assumes cnt: "py_int l0 = Some (int (length ls))" and two: "2 \<le> length ls"
    and lines: "list_all2 (\<lambda>l e. parse_stint_line l = Some e) ls entries"
  shows "plan_attempt race_laps (l0 # ls @ rest) =
           (if Some (sum_list (map snd entries)) = race_laps
            then (Accepted (map (\<lambda>(tok, n). (py_upper tok, n)) entries), rest)
            else (Rejected LapSumMismatch, rest))"
proof -
  have "snd \<circ> (\<lambda>(tok, n). (py_upper tok, n)) = (snd :: string \<times> int \<Rightarrow> int)"
    by (auto simp: fun_eq_iff)
  with two show ?thesis
    by (simp add: plan_attempt_def cnt read_stints_wellformed [OF lines])
qed

lemma input_strategy_wellformed:
  assumes cnt: "py_int l0 = Some (int (length ls))" and two: "2 \<le> length ls"
    and lines: "list_all2 (\<lambda>l e. parse_stint_line l = Some e) ls entries"
  shows "input_strategy race_laps (l0 # ls @ rest) =
           (if Some (sum_list (map snd entries)) = race_laps
            then Inr (map (\<lambda>(tok, n). (py_upper tok, n)) entries, rest)
            else input_strategy race_laps rest)"
  by (subst input_strategy.simps) (simp add: plan_attempt_wellformed [OF cnt two lines])

text \<open>
  C2, as the code has it: every accepted plan has lap counts that add up to the race
  length; and for a plan entered as a stint count of at least 2 followed by that many
  well-formed stint lines, this sum condition decides: the plan is accepted when the sum
  equals the race length, and otherwise it is dropped and the entry starts again from the
  stint count with the lines that follow. The sum alone is not sufficient: a plan of one
  stint, or one with a lap count of zero, is not accepted even when its sum is the race
  length.
\<close>

theorem strategy_acceptance:
  "(input_strategy race_laps inp = Inr (plan, rest) \<longrightarrow>
      Some (sum_list (map snd plan)) = race_laps) \<and>
   (py_int l0 = Some (int (length ls)) \<longrightarrow> 2 \<le> length ls \<longrightarrow>
    list_all2 (\<lambda>l e. parse_stint_line l = Some e) ls entries \<longrightarrow>
      input_strategy race_laps (l0 # ls @ rest') =
        (if Some (sum_list (map snd entries)) = race_laps
         then Inr (map (\<lambda>(tok, n). (py_upper tok, n)) entries, rest')
         else input_strategy race_laps rest'))"
  using input_strategy_accepted [of race_laps inp plan rest]
    input_strategy_wellformed [of l0 ls entries race_laps rest']
  by blast

lemma example_lines:
  "list_all2 (\<lambda>l e. parse_stint_line l = Some e) [''Soft 20'', ''medium 38'']
     [(''Soft'', 20), (''medium'', 38)]"
  by (simp add: parse_stint_line_def eval_input)

lemma example_count: "py_int ''2'' = Some (int (length [''Soft 20'', ''medium 38'']))"
  by (simp add: eval_input)

theorem strategy_acceptance_witness:
  "input_strategy (Some 58) ([''2'', ''Soft 20'', ''medium 38''] @ [''next'']) =
     Inr ([(''SOFT'', 20), (''MEDIUM'', 38)], [''next'']) \<and>
   input_strategy (Some 78) ([''2'', ''Soft 20'', ''medium 38''] @ [''next'']) =
     input_strategy (Some 78) [''next''] \<and>
   Some (sum_list (map snd [(''SOFT'', 20 :: int), (''MEDIUM'', 38)])) = Some 58"
proof -
  have up: "map (\<lambda>(tok, n). (py_upper tok, n)) [(''Soft'', 20 :: int), (''medium'', 38)] =
              [(''SOFT'', 20), (''MEDIUM'', 38)]"
    by (simp add: py_upper_def py_upper_char_def)
  have two: "2 \<le> length [''Soft 20'', ''medium 38'']" by simp
  have a: "input_strategy (Some 58) ([''2'', ''Soft 20'', ''medium 38''] @ [''next'']) =
     Inr ([(''SOFT'', 20), (''MEDIUM'', 38)], [''next''])"
    using strategy_acceptance [of "Some 58" "[]" "[]" "[]" "''2''" "[''Soft 20'', ''medium 38'']"
        "[(''Soft'', 20), (''medium'', 38)]" "[''next'']"] example_count two example_lines up
    by simp
  have b: "input_strategy (Some 78) ([''2'', ''Soft 20'', ''medium 38''] @ [''next'']) =
     input_strategy (Some 78) [''next'']"
    using strategy_acceptance [of "Some 78" "[]" "[]" "[]" "''2''" "[''Soft 20'', ''medium 38'']"
        "[(''Soft'', 20), (''medium'', 38)]" "[''next'']"] example_count two example_lines
    by simp
  have c: "Some (sum_list (map snd [(''SOFT'', 20 :: int), (''MEDIUM'', 38)])) = Some 58"
    using strategy_acceptance [of "Some 58" "[''2'', ''Soft 20'', ''medium 38'', ''next'']"
        "[(''SOFT'', 20), (''MEDIUM'', 38)]" "[''next'']"] a
    by simp
  from a b c show ?thesis by blast
qed

theorem sum_not_sufficient_counterexample:
  "plan_attempt (Some 58) [''1'', ''Soft 58''] = (Rejected TooFewStints, [''Soft 58'']) \<and>
   input_strategy (Some 58) [''1'', ''Soft 58''] = Inl EOFError \<and>
   input_strategy (Some 58) [''2'', ''Soft 58'', ''Medium 0''] = Inl EOFError \<and>
   sum_list (map snd [(''SOFT'', 58 :: int)]) = 58 \<and>
   sum_list (map snd [(''SOFT'', 58 :: int), (''MEDIUM'', 0)]) = 58"
  by (simp add: eval_input)

text \<open>
  C3, as the code has it: the compound token of a stint line is not checked against the
  five known compounds. A plan of at least two well-formed stint lines whose lap counts
  add up to the race length is accepted whatever its compound tokens are, and each token
  is stored upper-cased.
\<close>

theorem compound_token_not_validated:
  assumes "py_int l0 = Some (int (length ls))" and "2 \<le> length ls"
    and "list_all2 (\<lambda>l e. parse_stint_line l = Some e) ls entries"
    and "Some (sum_list (map snd entries)) = race_laps"
  shows "input_strategy race_laps (l0 # ls @ rest) =
           Inr (map (\<lambda>(tok, n). (py_upper tok, n)) entries, rest)"
  using input_strategy_wellformed [OF assms(1-3), of race_laps rest] assms(4) by simp

theorem compound_token_not_validated_witness:
  "input_strategy (Some 58) [''2'', ''Banana 20'', ''soft 38''] =
     Inr ([(''BANANA'', 20), (''SOFT'', 38)], [])"
proof -
  have cnt: "py_int ''2'' = Some (int (length [''Banana 20'', ''soft 38'']))"
    by (simp add: eval_input)
  have two: "2 \<le> length [''Banana 20'', ''soft 38'']" by simp
  have lines: "list_all2 (\<lambda>l e. parse_stint_line l = Some e) [''Banana 20'', ''soft 38'']
     [(''Banana'', 20), (''soft'', 38)]"
    by (simp add: parse_stint_line_def eval_input)
  have sum: "Some (sum_list (map snd [(''Banana'', 20 :: int), (''soft'', 38)])) = Some 58"
    by simp
  from compound_token_not_validated [OF cnt two lines sum, of "[]"] show ?thesis
    by (simp add: py_upper_def py_upper_char_def)
qed

theorem unknown_compound_accepted_counterexample:
  "input_strategy (Some 58) [''2'', ''Banana 20'', ''Medium 38''] =
     Inr ([(''BANANA'', 20), (''MEDIUM'', 38)], []) \<and>
   compound_performance_factor ''BANANA'' = None"
  by (simp add: eval_input compound_performance_factor_def)

lemma unknown_compound_KeyError:
  "compound_performance_factor (py_upper c) = None \<Longrightarrow> avgs (py_upper c) = Some b \<Longrightarrow>
     simulate_loop avgs rng ((c, n) # plan) pos = Inl KeyError"
  by simp

subsection \<open>The completion gate and the race length\<close>

lemma load_and_initialize_data_ok:
  "load_and_initialize_data (LoadOk d) s =
     s\<lparr>session := Some (Loaded d), analysis := Some (results d),
       total_laps := column_max (map LapNumber (laps d))\<rparr>"
  by (simp add: load_and_initialize_data_def load_session_def)

lemma did_driver_finish_fresh:
  assumes "session s = Some (Loaded d)" and "lap_data s = None"
  shows "did_driver_finish s code =
           Inr (total_laps s = Some (int (length (filter (\<lambda>l. Driver l = code) (laps d)))),
                s\<lparr>lap_data := Some (Some (laps d))\<rparr>)"
  using assms by (simp add: did_driver_finish_def ensure_lap_data_def get_lap_data_def)

lemma simulate_lap_times_refused:
  "did_driver_finish s code = Inr (False, s1) \<Longrightarrow> simulate_lap_times s code rng pos = Inr ([], pos, s1)"
  by (simp add: simulate_lap_times_def)

lemma run_simulation_fresh_gate:
  assumes drv: "get_drivers_loop (fst (create_driver_mappings (results d)))
                  (snd (create_driver_mappings (results d))) inp = Inr (code, inp1)"
    and dnf: "column_max (map LapNumber (laps d)) \<noteq>
                Some (int (length (filter (\<lambda>l. Driver l = code) (laps d))))"
  shows "\<exists>s'. run_simulation to_td (LoadOk d) init_simulator inp rng pos = Inr (s', inp1, pos) \<and>
           user_strategy s' = [] \<and> simulated_lap_times s' = [] \<and> driver_code s' = Some code \<and>
           session s' = Some (Loaded d) \<and>
           total_laps s' = column_max (map LapNumber (laps d)) \<and>
           (lap_data s' = None \<or> lap_data s' = Some (Some (laps d)))"
proof -
  let ?s1 = "(init_simulator :: 'a simulator)\<lparr>session := Some (Loaded d), analysis := Some (results d),
       total_laps := column_max (map LapNumber (laps d))\<rparr>"
  have s1: "load_and_initialize_data (LoadOk d) init_simulator = ?s1"
    by (rule load_and_initialize_data_ok)
  have gd: "get_drivers (LoadOk d) ?s1 inp = Inr (code, inp1, ?s1)"
    using drv by (simp add: get_drivers_def get_race_data_def case_prod_beta)
  let ?s3 = "?s1\<lparr>driver_code := Some code\<rparr>"
  have "lap_data ?s3 = None" "session ?s3 = Some (Loaded d)"
    by (simp_all add: init_simulator_def)
  from did_driver_finish_fresh [OF this(2) this(1), of code] dnf
  have fin: "did_driver_finish ?s3 code = Inr (False, ?s3\<lparr>lap_data := Some (Some (laps d))\<rparr>)"
    by simp
  have start: "analysis (init_simulator :: 'a simulator) = None" "analysis ?s1 \<noteq> None"
    by (simp_all add: init_simulator_def)
  show ?thesis
  proof (cases "code = []")
    case True
    have "run_simulation to_td (LoadOk d) init_simulator inp rng pos = Inr (?s3, inp1, pos)"
      unfolding run_simulation_def using True gd start by (simp add: s1 Let_def)
    then show ?thesis by (simp add: init_simulator_def)
  next
    case False
    have "run_simulation to_td (LoadOk d) init_simulator inp rng pos =
            Inr (?s3\<lparr>lap_data := Some (Some (laps d))\<rparr>, inp1, pos)"
      unfolding run_simulation_def using False gd fin start by (simp add: s1 Let_def)
    then show ?thesis by (simp add: init_simulator_def)
  qed
qed

lemma did_driver_finish_cached:
  assumes "lap_data s = Some (Some tbl)"
  shows "did_driver_finish s code =
           Inr (total_laps s = Some (int (length (filter (\<lambda>l. Driver l = code) tbl))), s)"
  using assms by (simp add: did_driver_finish_def ensure_lap_data_def)

text \<open>
  C7: on a new simulator with a loaded session, when the number of lap records of the
  chosen driver differs from the race length, \<open>run_simulation\<close> returns right after the
  driver was chosen: no console line is read for a strategy, no random value is drawn,
  the strategy and the simulated lap times stay empty. Called for that driver,
  \<open>simulate_lap_times\<close> itself returns no lap time and draws nothing.
\<close>

theorem completion_gate:
  assumes drv: "get_drivers_loop (fst (create_driver_mappings (results d)))
                  (snd (create_driver_mappings (results d))) inp = Inr (code, inp1)"
    and dnf: "column_max (map LapNumber (laps d)) \<noteq>
                Some (int (length (filter (\<lambda>l. Driver l = code) (laps d))))"
  shows "\<exists>s'. run_simulation to_td (LoadOk d) init_simulator inp rng pos = Inr (s', inp1, pos) \<and>
           driver_code s' = Some code \<and> user_strategy s' = [] \<and> simulated_lap_times s' = [] \<and>
           (\<exists>s''. simulate_lap_times s' code rng pos = Inr ([], pos, s''))"
proof -
  from run_simulation_fresh_gate [OF drv dnf, of to_td rng pos] obtain s' where
    run: "run_simulation to_td (LoadOk d) init_simulator inp rng pos = Inr (s', inp1, pos)" and
    fields: "user_strategy s' = []" "simulated_lap_times s' = []" "driver_code s' = Some code" and
    sess: "session s' = Some (Loaded d)" and
    tot: "total_laps s' = column_max (map LapNumber (laps d))" and
    cache: "lap_data s' = None \<or> lap_data s' = Some (Some (laps d))"
    by blast
  from cache have "\<exists>s''. did_driver_finish s' code = Inr (False, s'')"
  proof
    assume "lap_data s' = None"
    from did_driver_finish_fresh [OF sess this, of code] tot dnf show ?thesis by simp
  next
    assume "lap_data s' = Some (Some (laps d))"
    from did_driver_finish_cached [OF this, of code] tot dnf show ?thesis by simp
  qed
  then obtain s'' where "did_driver_finish s' code = Inr (False, s'')" ..
  then have "simulate_lap_times s' code rng pos = Inr ([], pos, s'')"
    by (rule simulate_lap_times_refused)
  with run fields show ?thesis by blast
qed

lemma example_mappings:
  "fst (create_driver_mappings example_results) = [''44'' \<mapsto> ''BBB'', ''1'' \<mapsto> ''AAA'', ''7'' \<mapsto> ''CCC'']"
  "snd (create_driver_mappings example_results) = [''BBB'' \<mapsto> ''44'', ''AAA'' \<mapsto> ''1'', ''CCC'' \<mapsto> ''7'']"
  by (auto simp: create_driver_mappings_def example_results_def fun_eq_iff)

theorem completion_gate_witness:
  "\<exists>s'. run_simulation Inr (LoadOk example_session) init_simulator
           [''xyz'', ''7'', ''2'', ''Soft 1'', ''Hard 1''] example_rng 0 =
           Inr (s', [''2'', ''Soft 1'', ''Hard 1''], 0) \<and>
        driver_code s' = Some ''CCC'' \<and> user_strategy s' = [] \<and> simulated_lap_times s' = []"
proof -
  have drv: "get_drivers_loop (fst (create_driver_mappings (results example_session)))
                  (snd (create_driver_mappings (results example_session)))
                  [''xyz'', ''7'', ''2'', ''Soft 1'', ''Hard 1''] =
               Inr (''CCC'', [''2'', ''Soft 1'', ''Hard 1''])"
    by (simp add: example_session_def example_mappings py_upper_def py_upper_char_def)
  have dnf: "column_max (map LapNumber (laps example_session)) \<noteq>
                Some (int (length (filter (\<lambda>l. Driver l = ''CCC'') (laps example_session))))"
    by (simp add: example_session_def example_laps_def column_max_def)
  from completion_gate [OF drv dnf, of Inr example_rng 0] show ?thesis by blast
qed

text \<open>
  C10: after loading a session with at least one lap record, the race length
  \<open>total_laps\<close> is the largest \<open>LapNumber\<close> of the lap table, over all drivers. The
  strategy entry compares the lap-count sum with it, and the completion gate compares the
  driver's number of lap records with it. A driver with at least one record, whose lap
  numbers are exactly 1 up to that maximum, each once, passes the gate.
\<close>

theorem race_length_is_max_lap_number:
  assumes laps: "laps d \<noteq> []"
  shows "total_laps (load_and_initialize_data (LoadOk d) s) =
           Some (Max (set (map LapNumber (laps d)))) \<and>
         (input_strategy (total_laps (load_and_initialize_data (LoadOk d) s)) inp = Inr (plan, rest) \<longrightarrow>
            sum_list (map snd plan) = Max (set (map LapNumber (laps d)))) \<and>
         (lap_data s = None \<longrightarrow>
            (\<exists>s'. did_driver_finish (load_and_initialize_data (LoadOk d) s) code =
                    Inr (int (length (filter (\<lambda>l. Driver l = code) (laps d))) =
                         Max (set (map LapNumber (laps d))), s'))) \<and>
         (lap_data s = None \<longrightarrow>
          filter (\<lambda>l. Driver l = code) (laps d) \<noteq> [] \<longrightarrow>
          distinct (map LapNumber (filter (\<lambda>l. Driver l = code) (laps d))) \<longrightarrow>
          set (map LapNumber (filter (\<lambda>l. Driver l = code) (laps d))) =
            {1..Max (set (map LapNumber (laps d)))} \<longrightarrow>
            (\<exists>s'. did_driver_finish (load_and_initialize_data (LoadOk d) s) code = Inr (True, s')))"
proof -
  let ?M = "Max (set (map LapNumber (laps d)))"
  let ?s = "load_and_initialize_data (LoadOk d) s"
  let ?mine = "filter (\<lambda>l. Driver l = code) (laps d)"
  have tot: "total_laps ?s = Some ?M"
    using laps by (simp add: load_and_initialize_data_ok column_max_def)
  have sess: "session ?s = Some (Loaded d)"
    by (simp add: load_and_initialize_data_ok)
  have plan: "sum_list (map snd plan) = ?M"
    if "input_strategy (total_laps ?s) inp = Inr (plan, rest)"
    using input_strategy_accepted [OF that] tot by simp
  have gate: "did_driver_finish ?s code =
                Inr (int (length ?mine) = ?M, ?s\<lparr>lap_data := Some (Some (laps d))\<rparr>)"
    if "lap_data s = None"
  proof -
    from that have "lap_data ?s = None" by (simp add: load_and_initialize_data_ok)
    from did_driver_finish_fresh [OF sess this, of code] tot show ?thesis by auto
  qed
  have pass: "int (length ?mine) = ?M"
    if ne: "?mine \<noteq> []" and dist: "distinct (map LapNumber ?mine)"
      and all: "set (map LapNumber ?mine) = {1..?M}"
  proof -
    from ne have "map LapNumber ?mine \<noteq> []" by simp
    then have "set (map LapNumber ?mine) \<noteq> {}" by (simp only: set_empty not_False_eq_True)
    then have "{1..?M} \<noteq> {}" by (simp only: all not_False_eq_True)
    then have pos: "1 \<le> ?M" by simp
    have "length ?mine = length (map LapNumber ?mine)" by simp
    also have "\<dots> = card (set (map LapNumber ?mine))"
      using dist by (simp only: distinct_card)
    also have "\<dots> = card {1..?M}" by (simp only: all)
    also have "\<dots> = nat ?M" by simp
    finally show ?thesis using pos by simp
  qed
  have g2: "input_strategy (total_laps ?s) inp = Inr (plan, rest) \<longrightarrow>
              sum_list (map snd plan) = ?M"
    using plan by blast
  have g3: "lap_data s = None \<longrightarrow>
              (\<exists>s'. did_driver_finish ?s code = Inr (int (length ?mine) = ?M, s'))"
    using gate by blast
  have g4: "lap_data s = None \<longrightarrow> ?mine \<noteq> [] \<longrightarrow> distinct (map LapNumber ?mine) \<longrightarrow>
              set (map LapNumber ?mine) = {1..?M} \<longrightarrow>
              (\<exists>s'. did_driver_finish ?s code = Inr (True, s'))"
  proof (intro impI)
    assume fresh: "lap_data s = None"
    assume "?mine \<noteq> []" "distinct (map LapNumber ?mine)"
      "set (map LapNumber ?mine) = {1..?M}"
    then have "int (length ?mine) = ?M" by (rule pass)
    with gate [OF fresh] show "\<exists>s'. did_driver_finish ?s code = Inr (True, s')" by simp
  qed
  show ?thesis
    by (rule conjI [OF tot conjI [OF g2 conjI [OF g3 g4]]])
qed

theorem race_length_is_max_lap_number_witness:
  "total_laps (load_and_initialize_data (LoadOk example_session) init_simulator) = Some 2 \<and>
   (\<exists>s'. did_driver_finish (load_and_initialize_data (LoadOk example_session) init_simulator) ''AAA'' =
           Inr (True, s')) \<and>
   (\<exists>s'. did_driver_finish (load_and_initialize_data (LoadOk example_session) init_simulator) ''CCC'' =
           Inr (False, s')) \<and>
   input_strategy (total_laps (load_and_initialize_data (LoadOk example_session) init_simulator))
     [''2'', ''Soft 1'', ''Hard 1''] = Inr ([(''SOFT'', 1), (''HARD'', 1)], []) \<and>
   sum_list (map snd [(''SOFT'', 1 :: int), (''HARD'', 1)]) =
     Max (set (map LapNumber (laps example_session)))"
proof -
  have laps: "laps example_session \<noteq> []"
    by (simp add: example_session_def example_laps_def)
  have M: "Max (set (map LapNumber (laps example_session))) = 2"
    by (simp add: example_session_def example_laps_def)
  have fresh: "lap_data (init_simulator :: timedelta simulator) = None"
    by (simp add: init_simulator_def)
  have mine: "filter (\<lambda>l. Driver l = ''AAA'') (laps example_session) \<noteq> []"
    "distinct (map LapNumber (filter (\<lambda>l. Driver l = ''AAA'') (laps example_session)))"
    "set (map LapNumber (filter (\<lambda>l. Driver l = ''AAA'') (laps example_session))) =
       {1..Max (set (map LapNumber (laps example_session)))}"
    unfolding M by (auto simp: example_session_def example_laps_def)
  have len: "int (length (filter (\<lambda>l. Driver l = ''CCC'') (laps example_session))) \<noteq> 2"
    by (simp add: example_session_def example_laps_def)
  from race_length_is_max_lap_number [OF laps, of init_simulator _ _ _ "''AAA''"] M fresh mine
  have a: "total_laps (load_and_initialize_data (LoadOk example_session) init_simulator) = Some 2"
    and b: "\<exists>s'. did_driver_finish (load_and_initialize_data (LoadOk example_session) init_simulator) ''AAA'' =
           Inr (True, s')"
    by simp_all
  from race_length_is_max_lap_number [OF laps, of init_simulator _ _ _ "''CCC''"] M fresh len
  have c: "\<exists>s'. did_driver_finish (load_and_initialize_data (LoadOk example_session) init_simulator) ''CCC'' =
           Inr (False, s')"
    by simp
  have d: "input_strategy (total_laps (load_and_initialize_data (LoadOk example_session) init_simulator))
     [''2'', ''Soft 1'', ''Hard 1''] = Inr ([(''SOFT'', 1), (''HARD'', 1)], [])"
    unfolding a by (simp add: eval_input)
  from race_length_is_max_lap_number [OF laps, of init_simulator "[''2'', ''Soft 1'', ''Hard 1'']"
      "[(''SOFT'', 1), (''HARD'', 1)]" "[]" "''AAA''"] d
  have e: "sum_list (map snd [(''SOFT'', 1 :: int), (''HARD'', 1)]) =
     Max (set (map LapNumber (laps example_session)))"
    by blast
  from a b c d e show ?thesis by blast
qed

subsection \<open>Sampling\<close>

lemma round_to_double_factors:
  "round_to_double 1.018 = 4584664420663165 / 2 ^ 52"
  "round_to_double 1.038 = 4674736413210575 / 2 ^ 52"
  "round_to_double 1.058 = 4764808405757985 / 2 ^ 52"
  "round_to_double 1.098 = 4944952390852805 / 2 ^ 52"
  "round_to_double 1.078 = 4854880398305395 / 2 ^ 52"
  by code_simp+

lemma round_to_double_draw: "round_to_double 0.005 = 5764607523034235 / 2 ^ 60"
  by code_simp

lemma compound_factor_values:
  "compound_performance_factor ''SOFT'' = Some (Float (round_to_double 1.018))"
  "compound_performance_factor ''MEDIUM'' = Some (Float (round_to_double 1.038))"
  "compound_performance_factor ''HARD'' = Some (Float (round_to_double 1.058))"
  "compound_performance_factor ''WET'' = Some (Float (round_to_double 1.098))"
  "compound_performance_factor ''INTERMEDIATE'' = Some (Float (round_to_double 1.078))"
  by (simp_all add: compound_performance_factor_def double_finite)

lemma compound_factor_dom:
  "dom compound_performance_factor = {''SOFT'', ''MEDIUM'', ''HARD'', ''WET'', ''INTERMEDIATE''}"
  unfolding compound_performance_factor_def dom_map_of_conv_image_fst by auto

lemma round_to_double_factor_bounds:
  "1 \<le> round_to_double 1.018 \<and> round_to_double 1.018 \<le> 11 / 10"
  "1 \<le> round_to_double 1.038 \<and> round_to_double 1.038 \<le> 11 / 10"
  "1 \<le> round_to_double 1.058 \<and> round_to_double 1.058 \<le> 11 / 10"
  "1 \<le> round_to_double 1.098 \<and> round_to_double 1.098 \<le> 11 / 10"
  "1 \<le> round_to_double 1.078 \<and> round_to_double 1.078 \<le> 11 / 10"
  unfolding round_to_double_factors by simp_all

lemma compound_factor_range:
  assumes "k \<in> dom compound_performance_factor"
  shows "\<exists>f. compound_performance_factor k = Some (Float f) \<and> 1 \<le> f \<and> f \<le> 11 / 10"
proof -
  from assms have "k = ''SOFT'' \<or> k = ''MEDIUM'' \<or> k = ''HARD'' \<or> k = ''WET'' \<or> k = ''INTERMEDIATE''"
    unfolding compound_factor_dom by blast
  then show ?thesis
    using compound_factor_values round_to_double_factor_bounds by blast
qed

lemma stint_samples_value:
  assumes b: "0 < b" "b \<le> 8 * 10 ^ 9"
    and f: "1 \<le> f" "f \<le> 11 / 10"
    and draws: "\<forall>i. \<bar>rng i\<bar> \<le> 51 / 10000"
  shows "stint_samples (Float b) (Float f) rng pos n =
           Inr (map (\<lambda>i. Timedelta (of_int (lap_ns b f (rng i)) / 1000000000)) [pos..<pos + n])"
proof (induction n arbitrary: pos)
  case 0
  then show ?case by simp
next
  case (Suc n)
  from draws have u: "\<bar>rng pos\<bar> \<le> 51 / 10000" by blast
  have lap: "Timedelta_seconds (fadd (fmul (Float b) (Float f)) (fmul (Float (rng pos)) (Float b))) =
               Inr (Timedelta (of_int (lap_ns b f (rng pos)) / 1000000000))"
    using lap_value_and_bound [OF b f u] by blast
  have "[pos..<pos + Suc n] = pos # [Suc pos..<Suc pos + n]"
    by (simp add: upt_rec)
  with Suc lap show ?case
    by (simp del: Timedelta_seconds.simps fmul.simps fadd.simps)
qed

lemma lap_compounds_Cons:
  "lap_compounds ((c, n) # plan) = replicate (nat n) (py_upper c) @ lap_compounds plan"
  by (simp add: lap_compounds_def)

lemma length_lap_compounds:
  "length (lap_compounds plan) = sum_list (map (\<lambda>(c, n). nat n) plan)"
  by (induction plan) (auto simp: lap_compounds_def)

lemma simulate_loop_known:
  assumes known: "\<forall>(c, n) \<in> set plan.
             py_upper c \<in> dom compound_performance_factor \<and>
             (\<exists>b. avgs (py_upper c) = Some (Float b) \<and> 0 < b \<and> b \<le> 8 * 10 ^ 9)"
    and draws: "\<forall>i. \<bar>rng i\<bar> \<le> 51 / 10000"
  shows "\<exists>ts. simulate_loop avgs rng plan pos = Inr (ts, pos + length (lap_compounds plan)) \<and>
           length ts = length (lap_compounds plan) \<and>
           (\<forall>k < length ts. \<exists>b f.
              avgs (lap_compounds plan ! k) = Some (Float b) \<and> 0 < b \<and> b \<le> 8 * 10 ^ 9 \<and>
              compound_performance_factor (lap_compounds plan ! k) = Some (Float f) \<and>
              ts ! k = Timedelta (of_int (lap_ns b f (rng (pos + k))) / 1000000000))"
  using known
proof (induction plan arbitrary: pos)
  case Nil
  then show ?case by (simp add: lap_compounds_def)
next
  case (Cons p plan)
  obtain c n where p: "p = (c, n)" by (cases p)
  from Cons.prems p obtain b where
    b: "avgs (py_upper c) = Some (Float b)" "0 < b" "b \<le> 8 * 10 ^ 9" and
    dom: "py_upper c \<in> dom compound_performance_factor"
    by auto
  from compound_factor_range [OF dom] obtain f where
    f: "compound_performance_factor (py_upper c) = Some (Float f)" "1 \<le> f" "f \<le> 11 / 10"
    by blast
  from Cons.prems have rest: "\<forall>(c, n) \<in> set plan.
      py_upper c \<in> dom compound_performance_factor \<and>
      (\<exists>b. avgs (py_upper c) = Some (Float b) \<and> 0 < b \<and> b \<le> 8 * 10 ^ 9)"
    by simp
  let ?m = "nat n"
  let ?ts0 = "map (\<lambda>i. Timedelta (of_int (lap_ns b f (rng i)) / 1000000000)) [pos..<pos + ?m]"
  have stint: "stint_samples (Float b) (Float f) rng pos ?m = Inr ?ts0"
    by (rule stint_samples_value [OF b(2,3) f(2,3) draws])
  from Cons.IH [OF rest, of "pos + ?m"] obtain ts' where
    run: "simulate_loop avgs rng plan (pos + ?m) = Inr (ts', pos + ?m + length (lap_compounds plan))" and
    len: "length ts' = length (lap_compounds plan)" and
    each: "\<forall>k < length ts'. \<exists>b f.
              avgs (lap_compounds plan ! k) = Some (Float b) \<and> 0 < b \<and> b \<le> 8 * 10 ^ 9 \<and>
              compound_performance_factor (lap_compounds plan ! k) = Some (Float f) \<and>
              ts' ! k = Timedelta (of_int (lap_ns b f (rng (pos + ?m + k))) / 1000000000)"
    by blast
  have eq: "simulate_loop avgs rng (p # plan) pos =
              Inr (?ts0 @ ts', pos + length (lap_compounds (p # plan)))"
    by (simp add: p f(1) b(1) stint run lap_compounds_Cons)
  have len': "length (?ts0 @ ts') = length (lap_compounds (p # plan))"
    by (simp add: p len lap_compounds_Cons)
  have "\<exists>b f. avgs (lap_compounds (p # plan) ! k) = Some (Float b) \<and> 0 < b \<and> b \<le> 8 * 10 ^ 9 \<and>
              compound_performance_factor (lap_compounds (p # plan) ! k) = Some (Float f) \<and>
              (?ts0 @ ts') ! k = Timedelta (of_int (lap_ns b f (rng (pos + k))) / 1000000000)"
    if k: "k < length (?ts0 @ ts')" for k
  proof (cases "k < ?m")
    case True
    then have "lap_compounds (p # plan) ! k = py_upper c"
      by (simp add: p lap_compounds_Cons nth_append)
    moreover from True have
      "(?ts0 @ ts') ! k = Timedelta (of_int (lap_ns b f (rng (pos + k))) / 1000000000)"
      by (simp add: nth_append)
    ultimately show ?thesis using f(1) b by auto
  next
    case False
    then have k': "k - ?m < length ts'" using k by simp
    from False have 1: "lap_compounds (p # plan) ! k = lap_compounds plan ! (k - ?m)"
      by (simp add: p lap_compounds_Cons nth_append)
    from False have 2: "(?ts0 @ ts') ! k = ts' ! (k - ?m)"
      by (simp add: nth_append)
    from False have 3: "pos + ?m + (k - ?m) = pos + k" by simp
    from each k' have "\<exists>b f.
              avgs (lap_compounds plan ! (k - ?m)) = Some (Float b) \<and> 0 < b \<and> b \<le> 8 * 10 ^ 9 \<and>
              compound_performance_factor (lap_compounds plan ! (k - ?m)) = Some (Float f) \<and>
              ts' ! (k - ?m) = Timedelta (of_int (lap_ns b f (rng (pos + ?m + (k - ?m)))) / 1000000000)"
      by blast
    then show ?thesis unfolding 1 2 3 .
  qed
  with eq len' show ?case by blast
qed

lemma draw_literal_bounds:
  "round_to_double 0.005 \<le> 51 / 10000" "round_to_double 0.005 \<le> 0.005 + 1 / 2 ^ 60"
  unfolding round_to_double_draw by simp_all

lemma simulate_lap_times_known:
  assumes fin: "did_driver_finish s code = Inr (True, s1)"
    and avg: "calculate_driver_averages s1 code = Inr (avgs, s2)"
    and known: "\<forall>(c, n) \<in> set (user_strategy s2).
                  py_upper c \<in> dom compound_performance_factor \<and>
                  (\<exists>b. avgs (py_upper c) = Some (Float b) \<and> 0 < b \<and> b \<le> 8 * 10 ^ 9)"
    and draws: "\<forall>i. \<bar>rng i\<bar> \<le> round_to_double 0.005"
  shows "\<exists>ts. simulate_lap_times s code rng pos =
                 Inr (ts, pos + length (lap_compounds (user_strategy s2)), s2) \<and>
           length ts = length (lap_compounds (user_strategy s2)) \<and>
           (\<forall>k < length ts. \<exists>b f.
              avgs (lap_compounds (user_strategy s2) ! k) = Some (Float b) \<and>
              0 < b \<and> b \<le> 8 * 10 ^ 9 \<and>
              compound_performance_factor (lap_compounds (user_strategy s2) ! k) = Some (Float f) \<and>
              ts ! k = Timedelta (of_int (lap_ns b f (rng (pos + k))) / 1000000000) \<and>
              Timedelta_seconds
                (fadd (fmul (Float b) (Float f)) (fmul (Float (rng (pos + k))) (Float b))) =
                Inr (ts ! k) \<and>
              \<bar>of_int (lap_ns b f (rng (pos + k))) / 1000000000 - (b * f + rng (pos + k) * b)\<bar> \<le>
                3 * b / 2 ^ 52 + 2 / 10 ^ 9)"
proof -
  let ?cs = "lap_compounds (user_strategy s2)"
  from draws draw_literal_bounds(1) have draws': "\<forall>i. \<bar>rng i\<bar> \<le> 51 / 10000"
    by (meson order_trans)
  from simulate_loop_known [OF known draws', of pos] obtain ts where
    run: "simulate_loop avgs rng (user_strategy s2) pos = Inr (ts, pos + length ?cs)" and
    len: "length ts = length ?cs" and
    each: "\<forall>k < length ts. \<exists>b f.
              avgs (?cs ! k) = Some (Float b) \<and> 0 < b \<and> b \<le> 8 * 10 ^ 9 \<and>
              compound_performance_factor (?cs ! k) = Some (Float f) \<and>
              ts ! k = Timedelta (of_int (lap_ns b f (rng (pos + k))) / 1000000000)"
    by blast
  have res: "simulate_lap_times s code rng pos = Inr (ts, pos + length ?cs, s2)"
    by (simp add: simulate_lap_times_def fin avg run)
  have "\<exists>b f.
          avgs (?cs ! k) = Some (Float b) \<and> 0 < b \<and> b \<le> 8 * 10 ^ 9 \<and>
          compound_performance_factor (?cs ! k) = Some (Float f) \<and>
          ts ! k = Timedelta (of_int (lap_ns b f (rng (pos + k))) / 1000000000) \<and>
          Timedelta_seconds
            (fadd (fmul (Float b) (Float f)) (fmul (Float (rng (pos + k))) (Float b))) =
            Inr (ts ! k) \<and>
          \<bar>of_int (lap_ns b f (rng (pos + k))) / 1000000000 - (b * f + rng (pos + k) * b)\<bar> \<le>
            3 * b / 2 ^ 52 + 2 / 10 ^ 9"
    if k: "k < length ts" for k
  proof -
    from each k obtain b f where
      b: "avgs (?cs ! k) = Some (Float b)" "0 < b" "b \<le> 8 * 10 ^ 9" and
      f: "compound_performance_factor (?cs ! k) = Some (Float f)" and
      t: "ts ! k = Timedelta (of_int (lap_ns b f (rng (pos + k))) / 1000000000)"
      by blast
    from f have "?cs ! k \<in> dom compound_performance_factor" by blast
    from compound_factor_range [OF this] f have fr: "1 \<le> f" "f \<le> 11 / 10" by auto
    from draws' have u: "\<bar>rng (pos + k)\<bar> \<le> 51 / 10000" by blast
    from lap_value_and_bound [OF b(2,3) fr u] t b f show ?thesis by metis
  qed
  with res len show ?thesis by blast
qed

lemma sprint_finish:
  "did_driver_finish sprint_simulator ''VER'' = Inr (True, ensure_lap_data sprint_simulator)"
  by (simp add: did_driver_finish_def Let_def ensure_lap_data_def sprint_simulator_def
      init_simulator_def get_lap_data_def sprint_laps_def)

lemma sprint_lap_data: "get_lap_data sprint_simulator = Some sprint_laps"
  by (simp add: sprint_simulator_def init_simulator_def get_lap_data_def)

lemma sprint_strategy:
  "user_strategy (ensure_lap_data sprint_simulator) = [(''soft'', 2), (''Hard'', 1)]"
  "user_strategy sprint_simulator = [(''soft'', 2), (''Hard'', 1)]"
  by (simp_all add: sprint_simulator_def init_simulator_def)

lemma sprint_averages:
  "compound_average sprint_laps ''VER'' ''SOFT'' = Float 80"
  "compound_average sprint_laps ''VER'' ''HARD'' = Float 90"
  by (simp_all add: compound_average_def sprint_laps_def td_mean_def py_upper_def py_upper_char_def)

lemma sprint_upper: "py_upper ''soft'' = ''SOFT''" "py_upper ''Hard'' = ''HARD''"
  by (simp_all add: py_upper_def py_upper_char_def)

lemma sprint_draws: "\<forall>i. \<bar>sprint_rng i\<bar> \<le> round_to_double 0.005"
  unfolding round_to_double_draw by (simp add: sprint_rng_def)

lemma sprint_lap_ns:
  "lap_ns 80 (round_to_double 1.018) (sprint_rng 0) = 81039999999"
  "lap_ns 80 (round_to_double 1.018) (sprint_rng 1) = 81520000000"
  "lap_ns 90 (round_to_double 1.058) (sprint_rng 2) = 95670000000"
  by code_simp+

lemma sprint_deviation:
  "round_to_double (sprint_rng 0 * 80) = - (3602879701896396 / 2 ^ 53)"
  by code_simp

lemma ensure_lap_data_idem [simp]: "ensure_lap_data (ensure_lap_data s) = ensure_lap_data s"
  by (simp add: ensure_lap_data_def split: option.splits)

lemma sprint_known:
  "\<exists>avgs. calculate_driver_averages (ensure_lap_data sprint_simulator) ''VER'' =
            Inr (avgs, ensure_lap_data sprint_simulator) \<and>
          avgs ''SOFT'' = Some (Float 80) \<and> avgs ''HARD'' = Some (Float 90) \<and>
          (\<forall>(c, n) \<in> set (user_strategy (ensure_lap_data sprint_simulator)).
             py_upper c \<in> dom compound_performance_factor \<and>
             (\<exists>b. avgs (py_upper c) = Some (Float b) \<and> 0 < b \<and> b \<le> 8 * 10 ^ 9))"
proof -
  let ?s = "ensure_lap_data sprint_simulator"
  define avgs where "avgs = driver_averages_loop sprint_laps ''VER'' (user_strategy ?s) Map.empty"
  have "get_lap_data ?s = Some sprint_laps"
    by (simp add: sprint_lap_data)
  from calculate_driver_averages_loaded [OF this, of "''VER''"]
  have avg: "calculate_driver_averages ?s ''VER'' = Inr (avgs, ?s)"
    by (simp add: avgs_def)
  have soft: "avgs ''SOFT'' = Some (Float 80)" and hard: "avgs ''HARD'' = Some (Float 90)"
    unfolding avgs_def driver_averages_loop_lookup sprint_strategy
    by (simp_all add: sprint_upper sprint_averages)
  have "\<forall>(c, n) \<in> set (user_strategy ?s).
             py_upper c \<in> dom compound_performance_factor \<and>
             (\<exists>b. avgs (py_upper c) = Some (Float b) \<and> 0 < b \<and> b \<le> 8 * 10 ^ 9)"
    unfolding sprint_strategy compound_factor_dom
    by (simp add: sprint_upper soft hard)
  with avg soft hard show ?thesis by blast
qed

lemma sprint_compounds:
  "lap_compounds (user_strategy (ensure_lap_data sprint_simulator)) = [''SOFT'', ''SOFT'', ''HARD'']"
  by (simp add: sprint_strategy lap_compounds_def sprint_upper numeral_2_eq_2)

lemma list_of_three:
  assumes "length xs = 3"
  shows "xs = [xs ! 0, xs ! 1, xs ! 2]"
proof -
  from assms obtain a b c where "xs = [a, b, c]"
    by (metis (no_types, opaque_lifting) length_0_conv length_Suc_conv numeral_3_eq_3)
  then show ?thesis by simp
qed

lemma sprint_run:
  "simulate_lap_times sprint_simulator ''VER'' sprint_rng 0 =
     Inr ([Timedelta (81039999999 / 1000000000), Timedelta (81520000000 / 1000000000),
           Timedelta (95670000000 / 1000000000)], 3, ensure_lap_data sprint_simulator)"
proof -
  let ?s = "ensure_lap_data sprint_simulator"
  from sprint_known obtain avgs where
    avg: "calculate_driver_averages ?s ''VER'' = Inr (avgs, ?s)" and
    soft: "avgs ''SOFT'' = Some (Float 80)" and hard: "avgs ''HARD'' = Some (Float 90)" and
    known: "\<forall>(c, n) \<in> set (user_strategy ?s).
             py_upper c \<in> dom compound_performance_factor \<and>
             (\<exists>b. avgs (py_upper c) = Some (Float b) \<and> 0 < b \<and> b \<le> 8 * 10 ^ 9)"
    by blast
  let ?cs = "lap_compounds (user_strategy ?s)"
  from simulate_lap_times_known [OF sprint_finish avg known sprint_draws, of 0]
  obtain ts where
    run0: "simulate_lap_times sprint_simulator ''VER'' sprint_rng 0 = Inr (ts, 0 + length ?cs, ?s)" and
    len0: "length ts = length ?cs" and
    each: "\<And>k. k < length ts \<Longrightarrow> \<exists>b f.
              avgs (?cs ! k) = Some (Float b) \<and>
              compound_performance_factor (?cs ! k) = Some (Float f) \<and>
              ts ! k = Timedelta (of_int (lap_ns b f (sprint_rng (0 + k))) / 1000000000)"
    by blast
  have len: "length ts = 3" using len0 unfolding sprint_compounds by simp
  have run: "simulate_lap_times sprint_simulator ''VER'' sprint_rng 0 = Inr (ts, 3, ?s)"
    using run0 unfolding sprint_compounds by simp
  have nth3: "\<And>x y z :: string. [x, y, z] ! 0 = x" "\<And>x y z :: string. [x, y, z] ! 1 = y"
    "\<And>x y z :: string. [x, y, z] ! 2 = z"
    by simp_all
  have "0 < length ts" "1 < length ts" "2 < length ts" using len by simp_all
  note laps = each [OF this(1)] each [OF this(2)] each [OF this(3)]
  have t0: "ts ! 0 = Timedelta (81039999999 / 1000000000)"
  proof -
    from laps(1) obtain b f where
      a: "avgs ''SOFT'' = Some (Float b)" and
      c: "compound_performance_factor ''SOFT'' = Some (Float f)" and
      t: "ts ! 0 = Timedelta (of_int (lap_ns b f (sprint_rng 0)) / 1000000000)"
      unfolding sprint_compounds nth3 add_0 by blast
    from a soft have b: "b = 80" by simp
    from c have f: "f = round_to_double 1.018"
      unfolding compound_factor_values by (simp only: option.inject pyfloat.inject)
    show ?thesis using t unfolding b f sprint_lap_ns by simp
  qed
  have t1: "ts ! 1 = Timedelta (81520000000 / 1000000000)"
  proof -
    from laps(2) obtain b f where
      a: "avgs ''SOFT'' = Some (Float b)" and
      c: "compound_performance_factor ''SOFT'' = Some (Float f)" and
      t: "ts ! 1 = Timedelta (of_int (lap_ns b f (sprint_rng 1)) / 1000000000)"
      unfolding sprint_compounds nth3 add_0 by blast
    from a soft have b: "b = 80" by simp
    from c have f: "f = round_to_double 1.018"
      unfolding compound_factor_values by (simp only: option.inject pyfloat.inject)
    show ?thesis using t unfolding b f sprint_lap_ns by simp
  qed
  have t2: "ts ! 2 = Timedelta (95670000000 / 1000000000)"
  proof -
    from laps(3) obtain b f where
      a: "avgs ''HARD'' = Some (Float b)" and
      c: "compound_performance_factor ''HARD'' = Some (Float f)" and
      t: "ts ! 2 = Timedelta (of_int (lap_ns b f (sprint_rng 2)) / 1000000000)"
      unfolding sprint_compounds nth3 add_0 by blast
    from a hard have b: "b = 90" by simp
    from c have f: "f = round_to_double 1.058"
      unfolding compound_factor_values by (simp only: option.inject pyfloat.inject)
    show ?thesis using t unfolding b f sprint_lap_ns by simp
  qed
  from list_of_three [OF len] t0 t1 t2 have "ts =
      [Timedelta (81039999999 / 1000000000), Timedelta (81520000000 / 1000000000),
       Timedelta (95670000000 / 1000000000)]"
    by simp
  with run show ?thesis by simp
qed

lemma lap_compounds_nth:
  assumes "k < length (lap_compounds plan)"
  shows "\<exists>c n. (c, n) \<in> set plan \<and> lap_compounds plan ! k = py_upper c"
proof -
  from assms have "lap_compounds plan ! k \<in> set (lap_compounds plan)" by (rule nth_mem)
  then show ?thesis unfolding lap_compounds_def by auto
qed

lemma sample_bound_arith:
  fixes b f u d :: rat
  assumes b: "0 < b" and u: "\<bar>u\<bar> \<le> 0.005 + 1 / 2 ^ 60"
    and d: "\<bar>d - (b * f + u * b)\<bar> \<le> 3 * b / 2 ^ 52 + 2 / 10 ^ 9"
  shows "b * f - 0.005 * b - (b / 2 ^ 50 + 2 / 10 ^ 9) \<le> d \<and>
         d \<le> b * f + 0.005 * b + (b / 2 ^ 50 + 2 / 10 ^ 9)"
proof -
  define p where "p = b * f"
  define q where "q = u * b"
  have "\<bar>q\<bar> = \<bar>u\<bar> * b" using b by (simp add: q_def abs_mult)
  also have "\<dots> \<le> (0.005 + 1 / 2 ^ 60) * b" using u b by (simp only: mult_right_mono less_imp_le)
  finally have q: "\<bar>q\<bar> \<le> 0.005 * b + b / 2 ^ 60" by (simp add: algebra_simps)
  have e: "b / 2 ^ 60 + 3 * b / 2 ^ 52 \<le> b / 2 ^ 50" using b by simp
  from d have d': "\<bar>d - (p + q)\<bar> \<le> 3 * b / 2 ^ 52 + 2 / 10 ^ 9" by (simp add: p_def q_def)
  define x where "x = b / 2 ^ 60"
  define y where "y = 3 * b / 2 ^ 52"
  define z where "z = b / 2 ^ 50"
  define w where "w = 0.005 * b"
  define n :: rat where "n = 2 / 10 ^ 9"
  from q have 1: "\<bar>q\<bar> \<le> w + x" by (simp add: w_def x_def)
  from d' have 2: "\<bar>d - (p + q)\<bar> \<le> y + n" by (simp only: y_def n_def)
  from e have 3: "x + y \<le> z" by (simp only: x_def y_def z_def)
  from 1 2 3 have "p - w - (z + n) \<le> d \<and> d \<le> p + w + (z + n)" by linarith
  then show ?thesis by (simp only: p_def w_def z_def n_def)
qed

end
